theory Spec2Isabelle
  imports Complex_Main "HOL-Library.Word" "HOL-Library.Sublist"
begin

section \<open>The processor-run test script (test-execute-processor.py)\<close>

text \<open>
  The script is a straight line of four HTTP calls. Everything it does beyond computing
  values is recorded in a trace of events (console output, HTTP requests, the sleep), and
  its end is an outcome: the exit code, or the exception that nobody catches.

  The surroundings of one run are a \<open>world\<close>: the process environment, the contents of
  the test file (or none when it cannot be opened), the bytes \<open>os.urandom\<close> hands out, and
  the remote server, which answers every request as a function of all requests it has
  seen so far.
\<close>

subsection \<open>Python values\<close>

type_synonym byte = "8 word"

text \<open>
  What \<open>response.json()\<close> can return. A dict is an association list read with
  \<open>map_of\<close>; \<open>JNull\<close> is also Python's \<open>None\<close>. Strings are byte strings: a
  character outside ASCII is its UTF-8 bytes.
\<close>

datatype json =
    JNull
  | JBool bool
  | JInt int
  | JFloat real
  | JStr string
  | JArr "json list"
  | JObj "(string \<times> json) list"

datatype exn =
    OSError
  | RequestException
  | JSONDecodeError
  | IndexError
  | KeyError
  | TypeError
  | AttributeError

text \<open>Python's truth value of an object, as \<open>if not x\<close> tests it.\<close>

fun truthy :: "json \<Rightarrow> bool" where
  "truthy JNull = False"
| "truthy (JBool b) = b"
| "truthy (JInt n) = (n \<noteq> 0)"
| "truthy (JFloat x) = (x \<noteq> 0)"
| "truthy (JStr s) = (s \<noteq> [])"
| "truthy (JArr xs) = (xs \<noteq> [])"
| "truthy (JObj kvs) = (kvs \<noteq> [])"

text \<open>\<open>x[0]\<close>: the first element of a list or string; a dict decoded from JSON has only
  string keys, so the key \<open>0\<close> is never there; the other values are not subscriptable.\<close>

fun item0 :: "json \<Rightarrow> exn + json" where
  "item0 (JArr []) = Inl IndexError"
| "item0 (JArr (x # xs)) = Inr x"
| "item0 (JStr []) = Inl IndexError"
| "item0 (JStr (c # cs)) = Inr (JStr [c])"
| "item0 (JObj kvs) = Inl KeyError"
| "item0 JNull = Inl TypeError"
| "item0 (JBool b) = Inl TypeError"
| "item0 (JInt n) = Inl TypeError"
| "item0 (JFloat x) = Inl TypeError"

text \<open>\<open>x['key']\<close>: only a dict can be indexed by a string.\<close>

fun subscript :: "json \<Rightarrow> string \<Rightarrow> exn + json" where
  "subscript (JObj kvs) k = (case map_of kvs k of None \<Rightarrow> Inl KeyError | Some v \<Rightarrow> Inr v)"
| "subscript JNull k = Inl TypeError"
| "subscript (JBool b) k = Inl TypeError"
| "subscript (JInt n) k = Inl TypeError"
| "subscript (JFloat x) k = Inl TypeError"
| "subscript (JStr s) k = Inl TypeError"
| "subscript (JArr xs) k = Inl TypeError"

text \<open>\<open>x.get('key', default)\<close>: only a dict has it.\<close>

fun dict_get :: "json \<Rightarrow> string \<Rightarrow> json \<Rightarrow> exn + json" where
  "dict_get (JObj kvs) k d = (case map_of kvs k of None \<Rightarrow> Inr d | Some v \<Rightarrow> Inr v)"
| "dict_get JNull k d = Inl AttributeError"
| "dict_get (JBool b) k d = Inl AttributeError"
| "dict_get (JInt n) k d = Inl AttributeError"
| "dict_get (JFloat x) k d = Inl AttributeError"
| "dict_get (JStr s) k d = Inl AttributeError"
| "dict_get (JArr xs) k d = Inl AttributeError"

text \<open>\<open>isinstance(x, list)\<close>.\<close>

fun is_list :: "json \<Rightarrow> bool" where
  "is_list (JArr xs) = True"
| "is_list JNull = False"
| "is_list (JBool b) = False"
| "is_list (JInt n) = False"
| "is_list (JFloat x) = False"
| "is_list (JStr s) = False"
| "is_list (JObj kvs) = False"

subsection \<open>Formatted text, requests, responses, events\<close>

text \<open>
  An f-string is kept as the list of its parts: literal text (and interpolated strings),
  an interpolated value, an interpolated integer, or \<open>json.dumps(v, indent=2)\<close>.
  Python's \<open>str()\<close> of an interpolated value is not expanded.
\<close>

datatype piece =
    Lit string
  | Fmt json
  | FmtInt int
  | Dumps json

type_synonym fstring = "piece list"

datatype http_method = GET | POST

datatype payload =
    NoBody
  | Data "byte list"
  | Json json

record request =
  verb :: http_method
  url :: fstring
  headers :: "(string \<times> string) list"
  body :: payload
  timeout :: "nat option"

record response =
  status_code :: int
  text_body :: string
  json_body :: "json option"

text \<open>\<open>text_body\<close> is \<open>response.text\<close>; \<open>json_body\<close> is what \<open>response.json()\<close>
  returns, \<open>None\<close> when the body is not JSON and the call raises.\<close>

datatype event =
    Print fstring
  | Http request
  | Sleep nat

datatype outcome =
    Exited int
  | Raised exn

record world =
  environ :: "string \<Rightarrow> string option"
  test_file :: "byte list option"
  entropy :: "nat \<Rightarrow> byte"
  server :: "request list \<Rightarrow> exn + response"

definition os_getenv :: "world \<Rightarrow> string \<Rightarrow> string option" where
  "os_getenv w name = environ w name"

text \<open>\<open>os.urandom(n)\<close>: the first \<open>n\<close> bytes of the world's entropy.\<close>

definition os_urandom :: "world \<Rightarrow> nat \<Rightarrow> byte list" where
  "os_urandom w n = map (entropy w) [0..<n]"

definition hex_digit :: "nat \<Rightarrow> char" where
  "hex_digit n = ''0123456789abcdef'' ! n"

text \<open>\<open>bytes.hex()\<close>: two lower-case digits for every byte.\<close>

fun bytes_hex :: "byte list \<Rightarrow> string" where
  "bytes_hex [] = []"
| "bytes_hex (b # bs) = hex_digit (unat b div 16) # hex_digit (unat b mod 16) # bytes_hex bs"

definition requests_of :: "event list \<Rightarrow> request list" where
  "requests_of tr = concat (map (\<lambda>e. case e of Http r \<Rightarrow> [r] | Print p \<Rightarrow> [] | Sleep n \<Rightarrow> []) tr)"

text \<open>One blocking HTTP call: the request is recorded, and the server answers it knowing
  the requests before it. The call itself may raise (no connection, timeout).\<close>

definition http :: "world \<Rightarrow> event list \<Rightarrow> request \<Rightarrow> event list \<times> (exn + response)" where
  "http w tr req = (tr @ [Http req], server w (requests_of tr @ [req]))"

subsection \<open>Configuration\<close>

definition SUPABASE_URL :: string where
  "SUPABASE_URL = ''https://xczippkxxdqlvaacjexj.supabase.co''"

definition ANON_KEY_NAME :: string where
  "ANON_KEY_NAME = ''NEXT_PUBLIC_SUPABASE_PUBLISHABLE_OR_ANON_KEY''"

definition SERVICE_ROLE_KEY_NAME :: string where
  "SERVICE_ROLE_KEY_NAME = ''SUPABASE_SERVICE_ROLE_KEY''"

definition PROCESSOR_ID :: string where
  "PROCESSOR_ID = ''9024a072-211d-40fc-a64f-b9d7a7f31a72''"

definition ORGANIZATION_ID :: string where
  "ORGANIZATION_ID = ''b822d5c9-706a-4e37-9d7a-c0b0417efe56''"

definition check_mark :: string where
  "check_mark = [CHR 0xE2, CHR 0x9C, CHR 0x93]"

definition cross_mark :: string where
  "cross_mark = [CHR 0xE2, CHR 0x9C, CHR 0x97]"

definition nl :: string where
  "nl = [CHR 0x0A]"

subsection \<open>Steps 1 and 2: \<open>upload_document\<close>\<close>

definition storage_path :: "byte list \<Rightarrow> string" where
  "storage_path rnd = ORGANIZATION_ID @ ''/test-contract-'' @ bytes_hex rnd @ ''.txt''"

definition upload_request :: "string \<Rightarrow> string \<Rightarrow> byte list \<Rightarrow> request" where
  "upload_request key path file_content =
     \<lparr> verb = POST,
       url = [Lit SUPABASE_URL, Lit ''/storage/v1/object/documents/'', Lit path],
       headers = [(''Authorization'', ''Bearer '' @ key), (''Content-Type'', ''text/plain'')],
       body = Data file_content,
       timeout = None \<rparr>"

definition doc_data :: "string \<Rightarrow> byte list \<Rightarrow> json" where
  "doc_data path file_content =
     JObj [(''name'', JStr ''test-contract.txt''),
           (''size_bytes'', JInt (int (length file_content))),
           (''mime_type'', JStr ''text/plain''),
           (''storage_path'', JStr path),
           (''organization_id'', JStr ORGANIZATION_ID)]"

definition insert_request :: "string \<Rightarrow> string \<Rightarrow> byte list \<Rightarrow> request" where
  "insert_request key path file_content =
     \<lparr> verb = POST,
       url = [Lit SUPABASE_URL, Lit ''/rest/v1/documents''],
       headers = [(''apikey'', key), (''Authorization'', ''Bearer '' @ key),
                  (''Content-Type'', ''application/json'')],
       body = Json (doc_data path file_content),
       timeout = None \<rparr>"

text \<open>The end of \<open>upload_document\<close>: unwrap a list, read the \<open>id\<close>.\<close>

definition document_id_of :: "json \<Rightarrow> exn + json" where
  "document_id_of document =
     (if is_list document
      then (case item0 document of Inl e \<Rightarrow> Inl e | Inr d \<Rightarrow> subscript d ''id'')
      else subscript document ''id'')"

definition upload_document :: "world \<Rightarrow> string \<Rightarrow> event list \<Rightarrow> event list \<times> (exn + json)" where
  "upload_document w key tr0 =
     (let tr1 = tr0 @ [Print [Lit (nl @ ''=== Step 1: Uploading document to Supabase Storage ==='')]];
          path = storage_path (os_urandom w 4)
      in case test_file w of
           None \<Rightarrow> (tr1, Inl OSError)
         | Some file_content \<Rightarrow>
            (case http w tr1 (upload_request key path file_content) of
               (tr2, Inl e) \<Rightarrow> (tr2, Inl e)
             | (tr2, Inr response) \<Rightarrow>
                if status_code response \<notin> set [200, 201]
                then (tr2 @ [Print [Lit ''ERROR: Failed to upload to storage: '',
                                    FmtInt (status_code response)],
                             Print [Lit (text_body response)]],
                      Inr JNull)
                else
                  (let tr3 = tr2 @ [Print [Lit (check_mark @ '' Uploaded to storage: ''), Lit path],
                                    Print [Lit (nl @ ''=== Step 2: Creating document record in database ==='')]]
                   in case http w tr3 (insert_request key path file_content) of
                        (tr4, Inl e) \<Rightarrow> (tr4, Inl e)
                      | (tr4, Inr response) \<Rightarrow>
                         if status_code response \<notin> set [200, 201]
                         then (tr4 @ [Print [Lit ''ERROR: Failed to create document record: '',
                                             FmtInt (status_code response)],
                                      Print [Lit (text_body response)]],
                               Inr JNull)
                         else
                           (case json_body response of
                              None \<Rightarrow> (tr4, Inl JSONDecodeError)
                            | Some document \<Rightarrow>
                               (case document_id_of document of
                                  Inl e \<Rightarrow> (tr4, Inl e)
                                | Inr document_id \<Rightarrow>
                                   (tr4 @ [Print [Lit (check_mark @ '' Created document record: ''),
                                                  Fmt document_id]],
                                    Inr document_id))))))"

subsection \<open>Step 3: \<open>execute_processor_run\<close>\<close>

definition run_payload :: "json \<Rightarrow> json" where
  "run_payload document_id =
     JObj [(''processor_id'', JStr PROCESSOR_ID), (''document_id'', document_id)]"

definition function_request :: "string \<Rightarrow> json \<Rightarrow> request" where
  "function_request key document_id =
     \<lparr> verb = POST,
       url = [Lit SUPABASE_URL, Lit ''/functions/v1/execute-processor-run''],
       headers = [(''Authorization'', ''Bearer '' @ key), (''Content-Type'', ''application/json'')],
       body = Json (run_payload document_id),
       timeout = Some 30 \<rparr>"

definition monitor_url :: string where
  "monitor_url = SUPABASE_URL @ ''/project/xczippkxxdqlvaacjexj/editor?table=runs''"

definition execute_processor_run ::
    "world \<Rightarrow> string \<Rightarrow> json \<Rightarrow> event list \<Rightarrow> event list \<times> (exn + json)" where
  "execute_processor_run w key document_id tr0 =
     (let tr1 = tr0 @ [Print [Lit (nl @ ''=== Step 3: Executing processor run ==='')],
                       Print [Lit ''Calling Edge Function with payload: '',
                              Dumps (run_payload document_id)]]
      in case http w tr1 (function_request key document_id) of
           (tr2, Inl e) \<Rightarrow> (tr2, Inl e)
         | (tr2, Inr response) \<Rightarrow>
            (let tr3 = tr2 @ [Print [Lit (nl @ ''Response Status: ''), FmtInt (status_code response)],
                              Print [Lit ''Response Body: '', Lit (text_body response)]]
             in if status_code response = 202
                then (case json_body response of
                        None \<Rightarrow> (tr3, Inl JSONDecodeError)
                      | Some result \<Rightarrow>
                         (case dict_get result ''run_id'' JNull of
                            Inl e \<Rightarrow> (tr3, Inl e)
                          | Inr run_id \<Rightarrow>
                             (tr3 @ [Print [Lit (nl @ check_mark @ '' Run initiated successfully!'')],
                                     Print [Lit (check_mark @ '' Run ID: ''), Fmt run_id],
                                     Print [Lit (check_mark @ '' Monitor at: ''), Lit monitor_url]],
                              Inr run_id)))
                else (tr3 @ [Print [Lit (nl @ cross_mark @ '' Run failed with status ''),
                                    FmtInt (status_code response)]],
                      Inr JNull)))"

subsection \<open>Step 4: \<open>check_run_status\<close>\<close>

definition status_request :: "string \<Rightarrow> json \<Rightarrow> request" where
  "status_request key run_id =
     \<lparr> verb = GET,
       url = [Lit SUPABASE_URL, Lit ''/rest/v1/runs?id=eq.'', Fmt run_id, Lit ''&select=*''],
       headers = [(''apikey'', key), (''Authorization'', ''Bearer '' @ key)],
       body = NoBody,
       timeout = None \<rparr>"

text \<open>The six prints of a run row, each evaluated just before it is printed, so that a
  missing field raises after the lines above it are out.\<close>

definition print_run :: "json \<Rightarrow> event list \<Rightarrow> event list \<times> (exn + json)" where
  "print_run run tr0 =
     (case subscript run ''status'' of
        Inl e \<Rightarrow> (tr0, Inl e)
      | Inr v1 \<Rightarrow>
     (let tr1 = tr0 @ [Print [Lit ''Status: '', Fmt v1]] in
      case subscript run ''total_operations'' of
        Inl e \<Rightarrow> (tr1, Inl e)
      | Inr v2 \<Rightarrow>
     (let tr2 = tr1 @ [Print [Lit ''Total Operations: '', Fmt v2]] in
      case subscript run ''completed_operations'' of
        Inl e \<Rightarrow> (tr2, Inl e)
      | Inr v3 \<Rightarrow>
     (let tr3 = tr2 @ [Print [Lit ''Completed: '', Fmt v3]] in
      case subscript run ''failed_operations'' of
        Inl e \<Rightarrow> (tr3, Inl e)
      | Inr v4 \<Rightarrow>
     (let tr4 = tr3 @ [Print [Lit ''Failed: '', Fmt v4]] in
      case subscript run ''started_at'' of
        Inl e \<Rightarrow> (tr4, Inl e)
      | Inr v5 \<Rightarrow>
     (let tr5 = tr4 @ [Print [Lit ''Started: '', Fmt v5]] in
      case dict_get run ''completed_at'' (JStr ''N/A'') of
        Inl e \<Rightarrow> (tr5, Inl e)
      | Inr v6 \<Rightarrow> (tr5 @ [Print [Lit ''Completed: '', Fmt v6]], Inr run)))))))"

definition check_run_status ::
    "world \<Rightarrow> string \<Rightarrow> json \<Rightarrow> event list \<Rightarrow> event list \<times> (exn + json)" where
  "check_run_status w key run_id tr0 =
     (let tr1 = tr0 @ [Print [Lit (nl @ ''=== Step 4: Checking run status ==='')]]
      in case http w tr1 (status_request key run_id) of
           (tr2, Inl e) \<Rightarrow> (tr2, Inl e)
         | (tr2, Inr response) \<Rightarrow>
            if status_code response = 200
            then (case json_body response of
                    None \<Rightarrow> (tr2, Inl JSONDecodeError)
                  | Some runs \<Rightarrow>
                     if truthy runs
                     then (case item0 runs of
                             Inl e \<Rightarrow> (tr2, Inl e)
                           | Inr run \<Rightarrow> print_run run tr2)
                     else (tr2, Inr JNull))
            else (tr2, Inr JNull))"

subsection \<open>The script: module level and the \<open>__main__\<close> block\<close>

text \<open>\<open>if not KEY\<close> on what \<open>os.getenv\<close> returned: true for an unset variable and for
  an empty one.\<close>

definition env_missing :: "string option \<Rightarrow> bool" where
  "env_missing v = (case v of None \<Rightarrow> True | Some s \<Rightarrow> s = [])"

definition summary :: "json \<Rightarrow> json \<Rightarrow> event list" where
  "summary run_id document_id =
     [Print [Lit (nl @ ''=== Test Complete ==='')],
      Print [Lit ''Run ID: '', Fmt run_id],
      Print [Lit ''Document ID: '', Fmt document_id],
      Print [Lit (nl @ ''Monitor progress:'')],
      Print [Lit ''  Runs: '', Lit monitor_url],
      Print [Lit ''  Operation Results: '',
             Lit (SUPABASE_URL @ ''/project/xczippkxxdqlvaacjexj/editor?table=operation_results'')]]"

definition banner :: "event list" where
  "banner =
     [Print [Lit ''=== ValidAI Processor Run Test ===''],
      Print [Lit ''Processor: '', Lit PROCESSOR_ID],
      Print [Lit ''Organization: '', Lit ORGANIZATION_ID]]"

definition main :: "world \<Rightarrow> string \<Rightarrow> event list \<times> outcome" where
  "main w key =
     (case upload_document w key banner of
        (tr1, Inl e) \<Rightarrow> (tr1, Raised e)
      | (tr1, Inr document_id) \<Rightarrow>
         if \<not> truthy document_id then (tr1, Exited 1)
         else
           (case execute_processor_run w key document_id tr1 of
              (tr2, Inl e) \<Rightarrow> (tr2, Raised e)
            | (tr2, Inr run_id) \<Rightarrow>
               if \<not> truthy run_id then (tr2, Exited 1)
               else
                 (case check_run_status w key run_id (tr2 @ [Sleep 2]) of
                    (tr3, Inl e) \<Rightarrow> (tr3, Raised e)
                  | (tr3, Inr run) \<Rightarrow> (tr3 @ summary run_id document_id, Exited 0))))"

definition script :: "world \<Rightarrow> event list \<times> outcome" where
  "script w =
     (if env_missing (os_getenv w ANON_KEY_NAME)
      then ([Print [Lit ''ERROR: NEXT_PUBLIC_SUPABASE_PUBLISHABLE_OR_ANON_KEY not found in environment'']],
            Exited 1)
      else if env_missing (os_getenv w SERVICE_ROLE_KEY_NAME)
      then ([Print [Lit ''ERROR: SUPABASE_SERVICE_ROLE_KEY not found in environment'']], Exited 1)
      else main w (the (os_getenv w SERVICE_ROLE_KEY_NAME)))"

subsection \<open>Vocabulary for the statements\<close>

text \<open>
  The situations the theorems speak about. \<open>credentials w key\<close>: both variables pass
  the module-level tests and \<open>key\<close> is the service-role key. \<open>upload_req\<close> and
  \<open>insert_req\<close> are the first two requests of a run in world \<open>w\<close>.
  \<open>upload_accepted\<close>, \<open>document_created\<close> and \<open>run_accepted\<close> say that the server's
  answers let the script pass step 1, steps 1 and 2 (with document id \<open>d\<close>), and steps 1
  to 3 (with run id \<open>rid\<close>). The \<open>_events\<close> lists are the traces up to and including
  the request of each step.
\<close>

definition credentials :: "world \<Rightarrow> string \<Rightarrow> bool" where
  "credentials w key \<longleftrightarrow>
     \<not> env_missing (os_getenv w ANON_KEY_NAME) \<and>
     os_getenv w SERVICE_ROLE_KEY_NAME = Some key \<and> key \<noteq> []"

definition upload_req :: "world \<Rightarrow> string \<Rightarrow> byte list \<Rightarrow> request" where
  "upload_req w key c = upload_request key (storage_path (os_urandom w 4)) c"

definition insert_req :: "world \<Rightarrow> string \<Rightarrow> byte list \<Rightarrow> request" where
  "insert_req w key c = insert_request key (storage_path (os_urandom w 4)) c"

definition upload_accepted :: "world \<Rightarrow> string \<Rightarrow> byte list \<Rightarrow> bool" where
  "upload_accepted w key c \<longleftrightarrow>
     (case server w [upload_req w key c] of
        Inl e \<Rightarrow> False
      | Inr r \<Rightarrow> status_code r \<in> {200, 201})"

definition document_created :: "world \<Rightarrow> string \<Rightarrow> byte list \<Rightarrow> json \<Rightarrow> bool" where
  "document_created w key c d \<longleftrightarrow>
     upload_accepted w key c \<and>
     (case server w [upload_req w key c, insert_req w key c] of
        Inl e \<Rightarrow> False
      | Inr r \<Rightarrow> status_code r \<in> {200, 201} \<and>
          (case json_body r of None \<Rightarrow> False | Some doc \<Rightarrow> document_id_of doc = Inr d)) \<and>
     truthy d"

definition run_accepted :: "world \<Rightarrow> string \<Rightarrow> byte list \<Rightarrow> json \<Rightarrow> json \<Rightarrow> bool" where
  "run_accepted w key c d rid \<longleftrightarrow>
     document_created w key c d \<and>
     (case server w [upload_req w key c, insert_req w key c, function_request key d] of
        Inl e \<Rightarrow> False
      | Inr r \<Rightarrow> status_code r = 202 \<and>
          (case json_body r of None \<Rightarrow> False | Some res \<Rightarrow> dict_get res ''run_id'' JNull = Inr rid)) \<and>
     truthy rid"

definition upload_events :: "world \<Rightarrow> string \<Rightarrow> byte list \<Rightarrow> event list" where
  "upload_events w key c =
     banner @
     [Print [Lit (nl @ ''=== Step 1: Uploading document to Supabase Storage ==='')],
      Http (upload_req w key c)]"

definition insert_events :: "world \<Rightarrow> string \<Rightarrow> byte list \<Rightarrow> event list" where
  "insert_events w key c =
     upload_events w key c @
     [Print [Lit (check_mark @ '' Uploaded to storage: ''), Lit (storage_path (os_urandom w 4))],
      Print [Lit (nl @ ''=== Step 2: Creating document record in database ==='')],
      Http (insert_req w key c)]"

definition function_events :: "world \<Rightarrow> string \<Rightarrow> byte list \<Rightarrow> json \<Rightarrow> response \<Rightarrow> event list" where
  "function_events w key c d r =
     insert_events w key c @
     [Print [Lit (check_mark @ '' Created document record: ''), Fmt d],
      Print [Lit (nl @ ''=== Step 3: Executing processor run ==='')],
      Print [Lit ''Calling Edge Function with payload: '', Dumps (run_payload d)],
      Http (function_request key d),
      Print [Lit (nl @ ''Response Status: ''), FmtInt (status_code r)],
      Print [Lit ''Response Body: '', Lit (text_body r)]]"

definition status_events ::
    "world \<Rightarrow> string \<Rightarrow> byte list \<Rightarrow> json \<Rightarrow> response \<Rightarrow> json \<Rightarrow> event list" where
  "status_events w key c d r rid =
     function_events w key c d r @
     [Print [Lit (nl @ check_mark @ '' Run initiated successfully!'')],
      Print [Lit (check_mark @ '' Run ID: ''), Fmt rid],
      Print [Lit (check_mark @ '' Monitor at: ''), Lit monitor_url],
      Sleep 2,
      Print [Lit (nl @ ''=== Step 4: Checking run status ==='')],
      Http (status_request key rid)]"

subsection \<open>Concrete runs\<close>

text \<open>A world for trying the script out: both keys set, a two-byte test file, fixed random
  bytes, and a server that gives the \<open>n\<close>-th prepared answer to the \<open>n\<close>-th request.\<close>

definition resp :: "int \<Rightarrow> string \<Rightarrow> json option \<Rightarrow> response" where
  "resp code txt js = \<lparr> status_code = code, text_body = txt, json_body = js \<rparr>"

definition scripted_server :: "(exn + response) list \<Rightarrow> request list \<Rightarrow> exn + response" where
  "scripted_server answers reqs =
     (if length reqs - 1 < length answers then answers ! (length reqs - 1)
      else Inl RequestException)"

definition demo_environ :: "string \<Rightarrow> string option" where
  "demo_environ = [ANON_KEY_NAME \<mapsto> ''anon-key'', SERVICE_ROLE_KEY_NAME \<mapsto> ''service-key'']"

definition demo_entropy :: "nat \<Rightarrow> byte" where
  "demo_entropy i = (if i = 0 then 0xde else if i = 1 then 0xad else if i = 2 then 0xbe else 0xef)"

definition demo_world :: "(exn + response) list \<Rightarrow> world" where
  "demo_world answers =
     \<lparr> environ = demo_environ,
       test_file = Some [0x68, 0x69],
       entropy = demo_entropy,
       server = scripted_server answers \<rparr>"

definition demo_path :: string where
  "demo_path = ''b822d5c9-706a-4e37-9d7a-c0b0417efe56/test-contract-deadbeef.txt''"

definition demo_row :: json where
  "demo_row =
     JObj [(''status'', JStr ''completed''), (''total_operations'', JInt 3),
           (''completed_operations'', JInt 3), (''failed_operations'', JInt 0),
           (''started_at'', JStr ''t0'')]"

definition upload_ok :: "exn + response" where
  "upload_ok = Inr (resp 201 ''{}'' (Some (JObj [])))"

definition insert_ok :: "exn + response" where
  "insert_ok = Inr (resp 201 ''{id:doc-1}'' (Some (JObj [(''id'', JStr ''doc-1'')])))"

definition function_ok :: "exn + response" where
  "function_ok = Inr (resp 202 ''{run_id:run-1}'' (Some (JObj [(''run_id'', JStr ''run-1'')])))"

definition status_ok :: "exn + response" where
  "status_ok = Inr (resp 200 ''[...]'' (Some (JArr [demo_row])))"

text \<open>Answers that send the script off the straight path.\<close>

definition upload_503 :: "exn + response" where
  "upload_503 = Inr (resp 503 ''Service Unavailable'' None)"

definition insert_400 :: "exn + response" where
  "insert_400 = Inr (resp 400 ''Bad Request'' None)"

definition insert_id_zero :: "exn + response" where
  "insert_id_zero = Inr (resp 201 ''{id:0}'' (Some (JObj [(''id'', JInt 0)])))"

definition insert_no_id :: "exn + response" where
  "insert_no_id = Inr (resp 201 ''{name:test-contract.txt}'' (Some (JObj [(''name'', JStr ''test-contract.txt'')])))"

definition insert_empty_list :: "exn + response" where
  "insert_empty_list = Inr (resp 201 ''[]'' (Some (JArr [])))"

definition function_500 :: "exn + response" where
  "function_500 = Inr (resp 500 ''Internal Server Error'' None)"

definition function_null_run_id :: "exn + response" where
  "function_null_run_id = Inr (resp 202 ''{run_id:null}'' (Some (JObj [(''run_id'', JNull)])))"

definition function_no_run_id :: "exn + response" where
  "function_no_run_id = Inr (resp 202 ''{queued:true}'' (Some (JObj [(''queued'', JBool True)])))"

definition status_500 :: "exn + response" where
  "status_500 = Inr (resp 500 ''Internal Server Error'' None)"

definition status_partial_row :: "exn + response" where
  "status_partial_row =
     Inr (resp 200 ''[{status:queued}]'' (Some (JArr [JObj [(''status'', JStr ''queued'')]])))"


section \<open>Properties\<close>

subsection \<open>Reading the trace\<close>

lemma requests_of_simps [simp]:
  "requests_of [] = []"
  "requests_of (Print p # tr) = requests_of tr"
  "requests_of (Sleep n # tr) = requests_of tr"
  "requests_of (Http r # tr) = r # requests_of tr"
  "requests_of (tr @ tr') = requests_of tr @ requests_of tr'"
  by (simp_all add: requests_of_def)

lemma requests_of_banner [simp]: "requests_of banner = []"
  by (simp add: banner_def)

lemma requests_of_summary [simp]: "requests_of (summary r d) = []"
  by (simp add: summary_def)

lemma requests_of_upload_events [simp]:
  "requests_of (upload_events w key c) = [upload_req w key c]"
  by (simp add: upload_events_def)

lemma requests_of_insert_events [simp]:
  "requests_of (insert_events w key c) = [upload_req w key c, insert_req w key c]"
  by (simp add: insert_events_def)

lemma requests_of_function_events [simp]:
  "requests_of (function_events w key c d r) =
     [upload_req w key c, insert_req w key c, function_request key d]"
  by (simp add: function_events_def)

lemma requests_of_status_events [simp]:
  "requests_of (status_events w key c d r rid) =
     [upload_req w key c, insert_req w key c, function_request key d, status_request key rid]"
  by (simp add: status_events_def)

lemma script_main: "credentials w key \<Longrightarrow> script w = main w key"
  by (simp add: credentials_def script_def env_missing_def)

lemma upload_acceptedE:
  assumes "upload_accepted w key c"
  obtains r where "server w [upload_req w key c] = Inr r" and "status_code r \<in> {200, 201}"
  using assms by (auto simp: upload_accepted_def split: sum.splits)

lemma document_createdE:
  assumes "document_created w key c d"
  obtains r doc where "upload_accepted w key c"
    and "server w [upload_req w key c, insert_req w key c] = Inr r"
    and "status_code r \<in> {200, 201}" and "json_body r = Some doc"
    and "document_id_of doc = Inr d" and "truthy d"
  using assms by (auto simp: document_created_def split: sum.splits option.splits)

lemma run_acceptedE:
  assumes "run_accepted w key c d rid"
  obtains r res where "document_created w key c d"
    and "server w [upload_req w key c, insert_req w key c, function_request key d] = Inr r"
    and "status_code r = 202" and "json_body r = Some res"
    and "dict_get res ''run_id'' JNull = Inr rid" and "truthy rid"
  using assms by (auto simp: run_accepted_def split: sum.splits option.splits)

subsection \<open>The steps, by what the server answers\<close>

lemma upload_refused:
  assumes "test_file w = Some c"
      and "server w [upload_req w key c] = Inr r"
      and "status_code r \<notin> {200, 201}"
  shows "upload_document w key banner =
           (upload_events w key c @
            [Print [Lit ''ERROR: Failed to upload to storage: '', FmtInt (status_code r)],
             Print [Lit (text_body r)]],
            Inr JNull)"
  using assms by (simp add: upload_document_def http_def upload_req_def upload_events_def)

lemma insert_answered:
  assumes "test_file w = Some c"
      and "upload_accepted w key c"
      and "server w [upload_req w key c, insert_req w key c] = Inr r"
  shows "upload_document w key banner =
           (if status_code r \<notin> {200, 201}
            then (insert_events w key c @
                  [Print [Lit ''ERROR: Failed to create document record: '', FmtInt (status_code r)],
                   Print [Lit (text_body r)]],
                  Inr JNull)
            else case json_body r of
                   None \<Rightarrow> (insert_events w key c, Inl JSONDecodeError)
                 | Some doc \<Rightarrow>
                    (case document_id_of doc of
                       Inl e \<Rightarrow> (insert_events w key c, Inl e)
                     | Inr d \<Rightarrow>
                        (insert_events w key c @
                         [Print [Lit (check_mark @ '' Created document record: ''), Fmt d]],
                         Inr d)))"
proof -
  from assms(2) obtain r1 where "server w [upload_req w key c] = Inr r1"
    and "status_code r1 \<in> {200, 201}"
    by (rule upload_acceptedE)
  with assms(1,3) show ?thesis
    by (auto simp: upload_document_def http_def upload_req_def insert_req_def Let_def
          upload_events_def insert_events_def split: option.splits sum.splits)
qed

lemma document_created_upload:
  assumes "test_file w = Some c" and "document_created w key c d"
  shows "upload_document w key banner =
           (insert_events w key c @
            [Print [Lit (check_mark @ '' Created document record: ''), Fmt d]], Inr d)"
proof -
  from assms(2) obtain r doc where h: "upload_accepted w key c"
    "server w [upload_req w key c, insert_req w key c] = Inr r"
    "status_code r \<in> {200, 201}" "json_body r = Some doc" "document_id_of doc = Inr d"
    by (rule document_createdE)
  show ?thesis
    using h(3-5) by (simp add: insert_answered [OF assms(1) h(1) h(2)])
qed

lemma function_answered:
  assumes "server w (requests_of tr @ [function_request key d]) = Inr r"
  shows "execute_processor_run w key d tr =
          (let tr3 = tr @ [Print [Lit (nl @ ''=== Step 3: Executing processor run ==='')],
                       Print [Lit ''Calling Edge Function with payload: '', Dumps (run_payload d)],
                       Http (function_request key d),
                       Print [Lit (nl @ ''Response Status: ''), FmtInt (status_code r)],
                       Print [Lit ''Response Body: '', Lit (text_body r)]]
           in if status_code r = 202
              then (case json_body r of
                      None \<Rightarrow> (tr3, Inl JSONDecodeError)
                    | Some res \<Rightarrow>
                       (case dict_get res ''run_id'' JNull of
                          Inl e \<Rightarrow> (tr3, Inl e)
                        | Inr rid \<Rightarrow>
                           (tr3 @ [Print [Lit (nl @ check_mark @ '' Run initiated successfully!'')],
                                   Print [Lit (check_mark @ '' Run ID: ''), Fmt rid],
                                   Print [Lit (check_mark @ '' Monitor at: ''), Lit monitor_url]],
                            Inr rid)))
              else (tr3 @ [Print [Lit (nl @ cross_mark @ '' Run failed with status ''),
                                  FmtInt (status_code r)]],
                    Inr JNull))"
  using assms
  by (simp add: execute_processor_run_def http_def Let_def split: option.splits sum.splits)

lemma status_answered:
  assumes "server w (requests_of tr @ [status_request key rid]) = Inr r"
  shows "check_run_status w key rid tr =
          (let tr2 = tr @ [Print [Lit (nl @ ''=== Step 4: Checking run status ==='')],
                           Http (status_request key rid)]
           in if status_code r = 200
              then (case json_body r of
                      None \<Rightarrow> (tr2, Inl JSONDecodeError)
                    | Some runs \<Rightarrow>
                       if truthy runs
                       then (case item0 runs of
                               Inl e \<Rightarrow> (tr2, Inl e)
                             | Inr run \<Rightarrow> print_run run tr2)
                       else (tr2, Inr JNull))
              else (tr2, Inr JNull))"
  using assms
  by (simp add: check_run_status_def http_def Let_def split: option.splits sum.splits)

subsection \<open>The requests of every run\<close>

lemma upload_document_requests:
  "\<exists>c. prefix (requests_of (fst (upload_document w key banner)))
              [upload_req w key c, insert_req w key c]"
  by (auto simp: upload_document_def http_def upload_req_def insert_req_def Let_def
        split: option.splits sum.splits prod.splits)

lemma upload_document_returned:
  assumes "upload_document w key banner = (tr, Inr d)" and "truthy d"
  shows "\<exists>c. requests_of tr = [upload_req w key c, insert_req w key c]"
  using assms
  by (auto simp: upload_document_def http_def upload_req_def insert_req_def Let_def
        split: option.splits sum.splits prod.splits if_splits)

lemma execute_processor_run_requests:
  "requests_of (fst (execute_processor_run w key d tr)) = requests_of tr @ [function_request key d]"
  by (simp add: execute_processor_run_def http_def Let_def
        split: option.splits sum.splits prod.splits)

lemma print_run_requests:
  "requests_of (fst (print_run run tr)) = requests_of tr"
  by (simp add: print_run_def Let_def split: sum.splits)

lemma check_run_status_requests:
  "requests_of (fst (check_run_status w key rid tr)) = requests_of tr @ [status_request key rid]"
  by (simp add: check_run_status_def http_def Let_def print_run_requests
        split: option.splits sum.splits prod.splits)

lemma main_requests:
  "\<exists>c d rid. prefix (requests_of (fst (main w key)))
     [upload_req w key c, insert_req w key c, function_request key d, status_request key rid]"
proof (cases "upload_document w key banner")
  case (Pair tr1 res1)
  show ?thesis
  proof (cases res1)
    case (Inl e)
    obtain c where "prefix (requests_of (fst (upload_document w key banner)))
              [upload_req w key c, insert_req w key c]"
      using upload_document_requests by blast
    then have "prefix (requests_of (fst (main w key)))
       ([upload_req w key c, insert_req w key c] @ [function_request key JNull, status_request key JNull])"
      using Pair Inl by (simp add: main_def prefix_order.trans)
    then show ?thesis by auto
  next
    case (Inr d)
    show ?thesis
    proof (cases "truthy d")
      case False
      obtain c where "prefix (requests_of (fst (upload_document w key banner)))
                [upload_req w key c, insert_req w key c]"
        using upload_document_requests by blast
      then have "prefix (requests_of (fst (main w key)))
         ([upload_req w key c, insert_req w key c] @ [function_request key JNull, status_request key JNull])"
        using Pair Inr False by (simp add: main_def prefix_order.trans)
      then show ?thesis by auto
    next
      case True
      obtain c where c: "requests_of tr1 = [upload_req w key c, insert_req w key c]"
        using upload_document_returned Pair Inr True by blast
      obtain tr2 res2 where e: "execute_processor_run w key d tr1 = (tr2, res2)"
        by (cases "execute_processor_run w key d tr1")
      have r2: "requests_of tr2 = [upload_req w key c, insert_req w key c, function_request key d]"
        using execute_processor_run_requests [of w key d tr1] e c by simp
      show ?thesis
      proof (cases "\<exists>rid. res2 = Inr rid \<and> truthy rid")
        case False
        then have "requests_of (fst (main w key)) = requests_of tr2"
          using Pair Inr True e by (cases res2) (auto simp: main_def)
        then have "prefix (requests_of (fst (main w key)))
           [upload_req w key c, insert_req w key c, function_request key d, status_request key JNull]"
          using r2 by simp
        then show ?thesis by blast
      next
        case True
        then obtain rid where rid: "res2 = Inr rid" "truthy rid" by blast
        obtain tr3 res3 where s: "check_run_status w key rid (tr2 @ [Sleep 2]) = (tr3, res3)"
          by (cases "check_run_status w key rid (tr2 @ [Sleep 2])")
        have "requests_of tr3 = requests_of tr2 @ [status_request key rid]"
          using check_run_status_requests [of w key rid "tr2 @ [Sleep 2]"] s by simp
        then have "requests_of (fst (main w key)) = requests_of tr2 @ [status_request key rid]"
          using Pair Inr \<open>truthy d\<close> e rid s by (cases res3) (simp_all add: main_def)
        then have "prefix (requests_of (fst (main w key)))
           [upload_req w key c, insert_req w key c, function_request key d, status_request key rid]"
          using r2 by simp
        then show ?thesis by blast
      qed
    qed
  qed
qed

lemma script_requests:
  assumes "os_getenv w SERVICE_ROLE_KEY_NAME = Some key"
  shows "\<exists>c d rid. prefix (requests_of (fst (script w)))
     [upload_req w key c, insert_req w key c, function_request key d, status_request key rid]"
  using assms main_requests [of w key] by (simp add: script_def)

lemma script_requests_unset:
  assumes "os_getenv w SERVICE_ROLE_KEY_NAME = None"
  shows "requests_of (fst (script w)) = []"
  using assms by (simp add: script_def env_missing_def)

lemma timeouts:
  "map timeout [upload_req w key c, insert_req w key c, function_request key d, status_request key rid]
     = [None, None, Some 30, None]"
  by (simp add: upload_req_def insert_req_def upload_request_def insert_request_def
        function_request_def status_request_def)

text \<open>
  Claim C8. In every run, the requests the script issues are, in order, the storage
  upload, the document insert, the function invocation and the run-status read (or an
  initial part of these four); their timeouts are none, none, 30 seconds, none. Only
  the third call carries an explicit timeout, and it is 30 seconds.
\<close>

theorem only_function_call_has_timeout:
  "prefix (map timeout (requests_of (fst (script w)))) [None, None, Some 30, None]"
proof (cases "os_getenv w SERVICE_ROLE_KEY_NAME")
  case None
  then show ?thesis by (simp add: script_requests_unset)
next
  case (Some key)
  then obtain c d rid where "prefix (requests_of (fst (script w)))
     [upload_req w key c, insert_req w key c, function_request key d, status_request key rid]"
    using script_requests by blast
  then have "prefix (map timeout (requests_of (fst (script w))))
     (map timeout [upload_req w key c, insert_req w key c, function_request key d, status_request key rid])"
    by (rule map_mono_prefix)
  then show ?thesis by (simp only: timeouts)
qed

lemma http_environ: "http (w\<lparr>environ := e\<rparr>) = http w"
  by (simp add: http_def fun_eq_iff)

lemma os_urandom_environ: "os_urandom (w\<lparr>environ := e\<rparr>) = os_urandom w"
  by (simp add: os_urandom_def fun_eq_iff)

lemma environ_irrelevant:
  "upload_document (w\<lparr>environ := e\<rparr>) key tr = upload_document w key tr"
  "execute_processor_run (w\<lparr>environ := e\<rparr>) key d tr = execute_processor_run w key d tr"
  "check_run_status (w\<lparr>environ := e\<rparr>) key rid tr = check_run_status w key rid tr"
  unfolding upload_document_def execute_processor_run_def check_run_status_def
    http_environ os_urandom_environ
  by simp_all

lemma main_environ: "main (w\<lparr>environ := e\<rparr>) key = main w key"
  unfolding main_def environ_irrelevant ..

lemma names_differ: "SERVICE_ROLE_KEY_NAME \<noteq> ANON_KEY_NAME"
  by (simp add: SERVICE_ROLE_KEY_NAME_def ANON_KEY_NAME_def)

lemma script_anon:
  assumes "a \<noteq> []"
  shows "script (w\<lparr>environ := (environ w)(ANON_KEY_NAME \<mapsto> a)\<rparr>) =
         (if env_missing (os_getenv w SERVICE_ROLE_KEY_NAME)
          then ([Print [Lit ''ERROR: SUPABASE_SERVICE_ROLE_KEY not found in environment'']], Exited 1)
          else main w (the (os_getenv w SERVICE_ROLE_KEY_NAME)))"
  using assms by (simp add: script_def os_getenv_def env_missing_def names_differ main_environ)

lemma headers:
  assumes "r \<in> set [upload_req w key c, insert_req w key c, function_request key d, status_request key rid]"
  shows "map_of (headers r) ''Authorization'' = Some (''Bearer '' @ key) \<and>
         map_of (headers r) ''apikey'' \<in> {None, Some key} \<and>
         fst ` set (headers r) \<subseteq> {''Authorization'', ''apikey'', ''Content-Type''}"
  using assms
  by (auto simp: upload_req_def insert_req_def upload_request_def insert_request_def
        function_request_def status_request_def)

text \<open>
  Claim C9. The anonymous key is never used in a request. Two runs in worlds that differ
  only in the non-empty value of the anonymous key are the same run: same trace (hence
  the same requests) and same outcome. Every request of every run carries the header
  \<open>Authorization: Bearer <service-role key>\<close>; an \<open>apikey\<close> header, where there is
  one, holds the service-role key; and there is no header besides these two and
  \<open>Content-Type\<close>.
\<close>

theorem anon_key_never_used:
  "(a1 \<noteq> [] \<and> a2 \<noteq> [] \<longrightarrow>
      script (w\<lparr>environ := (environ w)(ANON_KEY_NAME \<mapsto> a1)\<rparr>) =
      script (w\<lparr>environ := (environ w)(ANON_KEY_NAME \<mapsto> a2)\<rparr>))
   \<and> (\<forall>r \<in> set (requests_of (fst (script w))).
        \<exists>key. os_getenv w SERVICE_ROLE_KEY_NAME = Some key \<and>
          map_of (headers r) ''Authorization'' = Some (''Bearer '' @ key) \<and>
          map_of (headers r) ''apikey'' \<in> {None, Some key} \<and>
          fst ` set (headers r) \<subseteq> {''Authorization'', ''apikey'', ''Content-Type''})"
proof (intro conjI impI ballI)
  assume "a1 \<noteq> [] \<and> a2 \<noteq> []"
  then show "script (w\<lparr>environ := (environ w)(ANON_KEY_NAME \<mapsto> a1)\<rparr>) =
      script (w\<lparr>environ := (environ w)(ANON_KEY_NAME \<mapsto> a2)\<rparr>)"
    by (simp add: script_anon)
next
  fix r assume r: "r \<in> set (requests_of (fst (script w)))"
  show "\<exists>key. os_getenv w SERVICE_ROLE_KEY_NAME = Some key \<and>
          map_of (headers r) ''Authorization'' = Some (''Bearer '' @ key) \<and>
          map_of (headers r) ''apikey'' \<in> {None, Some key} \<and>
          fst ` set (headers r) \<subseteq> {''Authorization'', ''apikey'', ''Content-Type''}"
  proof (cases "os_getenv w SERVICE_ROLE_KEY_NAME")
    case None
    with r show ?thesis by (simp add: script_requests_unset)
  next
    case (Some key)
    then obtain c d rid where "prefix (requests_of (fst (script w)))
       [upload_req w key c, insert_req w key c, function_request key d, status_request key rid]"
      using script_requests by blast
    then have "r \<in> set [upload_req w key c, insert_req w key c, function_request key d, status_request key rid]"
      using r set_mono_prefix by blast
    then show ?thesis using Some headers by blast
  qed
qed

text \<open>
  Claim C3. If either required environment variable is absent, the script prints the
  error line for the missing variable, exits with code 1, and has issued no request.
\<close>

theorem missing_credential_exits_before_network:
  assumes "os_getenv w ANON_KEY_NAME = None \<or> os_getenv w SERVICE_ROLE_KEY_NAME = None"
  shows "snd (script w) = Exited 1 \<and> requests_of (fst (script w)) = [] \<and>
         (fst (script w) = [Print [Lit ''ERROR: NEXT_PUBLIC_SUPABASE_PUBLISHABLE_OR_ANON_KEY not found in environment'']]
          \<or> fst (script w) = [Print [Lit ''ERROR: SUPABASE_SERVICE_ROLE_KEY not found in environment'']])"
  using assms by (auto simp: script_def env_missing_def)

subsection \<open>The storage path\<close>

lemma hex_digit_inj: "m < 16 \<Longrightarrow> n < 16 \<Longrightarrow> hex_digit m = hex_digit n \<Longrightarrow> m = n"
  unfolding hex_digit_def
  by (subst (asm) nth_eq_iff_index_eq) simp_all

lemma byte_hex_inj:
  fixes a b :: byte
  assumes "hex_digit (unat a div 16) = hex_digit (unat b div 16)"
      and "hex_digit (unat a mod 16) = hex_digit (unat b mod 16)"
  shows "a = b"
proof -
  have la: "unat a < 256" and lb: "unat b < 256"
    using unsigned_less [of a, where ?'a = nat] unsigned_less [of b, where ?'a = nat] by simp_all
  have d: "unat a div 16 = unat b div 16"
    using assms(1) la lb by (intro hex_digit_inj) simp_all
  have m: "unat a mod 16 = unat b mod 16"
    using assms(2) by (intro hex_digit_inj) simp_all
  have "unat a = unat b"
    using d m by (metis div_mult_mod_eq)
  then show ?thesis by (simp add: word_unat_eq_iff)
qed

lemma bytes_hex_inj: "bytes_hex xs = bytes_hex ys \<Longrightarrow> xs = ys"
proof (induction xs arbitrary: ys)
  case Nil
  then show ?case by (cases ys) simp_all
next
  case (Cons x xs)
  then show ?case by (cases ys) (auto dest: byte_hex_inj)
qed

subsection \<open>The concrete worlds\<close>

lemma demo_urandom: "os_urandom (demo_world a) 4 = [0xde, 0xad, 0xbe, 0xef]"
  by (simp add: os_urandom_def demo_world_def demo_entropy_def upt_rec)

lemma demo_storage_path: "storage_path [0xde, 0xad, 0xbe, 0xef] = demo_path"
  by (simp add: storage_path_def ORGANIZATION_ID_def hex_digit_def demo_path_def)

lemma demo_getenv:
  "os_getenv (demo_world a) ANON_KEY_NAME = Some ''anon-key''"
  "os_getenv (demo_world a) SERVICE_ROLE_KEY_NAME = Some ''service-key''"
  by (simp_all add: os_getenv_def demo_world_def demo_environ_def
        ANON_KEY_NAME_def SERVICE_ROLE_KEY_NAME_def)

lemma demo_credentials: "credentials (demo_world a) ''service-key''"
  by (simp add: credentials_def demo_getenv env_missing_def)

lemma demo_file: "test_file (demo_world a) = Some [0x68, 0x69]"
  by (simp add: demo_world_def)

lemma demo_server:
  "server (demo_world a) [q1] = (if 0 < length a then a ! 0 else Inl RequestException)"
  "server (demo_world a) [q1, q2] = (if 1 < length a then a ! 1 else Inl RequestException)"
  "server (demo_world a) [q1, q2, q3] = (if 2 < length a then a ! 2 else Inl RequestException)"
  "server (demo_world a) [q1, q2, q3, q4] = (if 3 < length a then a ! 3 else Inl RequestException)"
  by (simp_all add: demo_world_def scripted_server_def numeral_2_eq_2 numeral_3_eq_3)

text \<open>
  Claim C7, as amended. The path is the organization identifier, a fixed stem and the
  hexadecimal form of the random bytes, and it determines those bytes: two invocations
  build different paths exactly when \<open>os.urandom\<close> gave them different bytes. Two
  invocations that draw the same four bytes build the same path.
\<close>

theorem storage_path_injective:
  "(storage_path r1 = storage_path r2) = (r1 = r2)"
  by (auto simp: storage_path_def dest: bytes_hex_inj)

text \<open>
  Claim C7 as stated fails: two runs in different worlds whose \<open>os.urandom(4)\<close> returns
  the same bytes \<open>de ad be ef\<close> both build the path ending in \<open>test-contract-deadbeef.txt\<close>.
\<close>

theorem storage_path_collision:
  "os_urandom (demo_world []) 4 = os_urandom (demo_world [upload_ok]) 4 \<and>
   storage_path (os_urandom (demo_world []) 4) = demo_path \<and>
   storage_path (os_urandom (demo_world [upload_ok]) 4) = demo_path"
  by (simp add: demo_urandom demo_storage_path)

text \<open>Runs of claim C3: no variable set at all, and only the anonymous key set; both
  end with exit code 1 and without a request.\<close>

theorem missing_credential_witness:
  "os_getenv (demo_world [upload_ok]\<lparr>environ := Map.empty\<rparr>) ANON_KEY_NAME = None \<and>
   snd (script (demo_world [upload_ok]\<lparr>environ := Map.empty\<rparr>)) = Exited 1 \<and>
   requests_of (fst (script (demo_world [upload_ok]\<lparr>environ := Map.empty\<rparr>))) = [] \<and>
   os_getenv (demo_world [upload_ok]\<lparr>environ := [ANON_KEY_NAME \<mapsto> ''anon-key'']\<rparr>)
     SERVICE_ROLE_KEY_NAME = None \<and>
   script (demo_world [upload_ok]\<lparr>environ := [ANON_KEY_NAME \<mapsto> ''anon-key'']\<rparr>) =
     ([Print [Lit ''ERROR: SUPABASE_SERVICE_ROLE_KEY not found in environment'']], Exited 1)"
proof -
  have h: "os_getenv (demo_world [upload_ok]\<lparr>environ := Map.empty\<rparr>) ANON_KEY_NAME = None"
    by (simp add: os_getenv_def)
  have k: "os_getenv (demo_world [upload_ok]\<lparr>environ := [ANON_KEY_NAME \<mapsto> ''anon-key'']\<rparr>)
     SERVICE_ROLE_KEY_NAME = None"
    by (simp add: os_getenv_def names_differ)
  have a: "os_getenv (demo_world [upload_ok]\<lparr>environ := [ANON_KEY_NAME \<mapsto> ''anon-key'']\<rparr>)
     ANON_KEY_NAME = Some ''anon-key''"
    by (simp add: os_getenv_def)
  have "fst (script (demo_world [upload_ok]\<lparr>environ := [ANON_KEY_NAME \<mapsto> ''anon-key'']\<rparr>)) =
     [Print [Lit ''ERROR: SUPABASE_SERVICE_ROLE_KEY not found in environment'']]"
    using a k by (simp add: script_def env_missing_def)
  then have "script (demo_world [upload_ok]\<lparr>environ := [ANON_KEY_NAME \<mapsto> ''anon-key'']\<rparr>) =
     ([Print [Lit ''ERROR: SUPABASE_SERVICE_ROLE_KEY not found in environment'']], Exited 1)"
    using missing_credential_exits_before_network [OF disjI2 [OF k]]
    by (simp add: prod_eq_iff)
  then show ?thesis
    using missing_credential_exits_before_network [OF disjI1 [OF h]] h k by simp
qed

subsection \<open>Each step only adds to the trace\<close>

lemma execute_processor_run_extends:
  "execute_processor_run w key d tr = (tr', res) \<Longrightarrow> \<exists>ev. tr' = tr @ ev"
  by (auto simp: execute_processor_run_def http_def Let_def
        split: option.splits sum.splits prod.splits if_splits)

lemma print_run_extends: "print_run run tr = (tr', res) \<Longrightarrow> \<exists>ev. tr' = tr @ ev"
  by (auto simp: print_run_def Let_def split: sum.splits)

lemma check_run_status_extends:
  "check_run_status w key rid tr = (tr', res) \<Longrightarrow>
     \<exists>ev. tr' = tr @ [Print [Lit (nl @ ''=== Step 4: Checking run status ==='')],
                      Http (status_request key rid)] @ ev"
  by (auto simp: check_run_status_def http_def Let_def
        split: option.splits sum.splits prod.splits if_splits dest!: print_run_extends)

lemma main_extends: "prefix (fst (upload_document w key banner)) (fst (main w key))"
  by (auto simp: main_def prefix_def split: prod.splits sum.splits
        dest!: execute_processor_run_extends check_run_status_extends)

subsection \<open>The upload and the insert\<close>

lemma upload_accepted_requests:
  assumes "test_file w = Some c" and "upload_accepted w key c"
  shows "\<exists>ev res. upload_document w key banner = (insert_events w key c @ ev, res)"
proof -
  from assms(2) obtain r1 where "server w [upload_req w key c] = Inr r1"
    and "status_code r1 \<in> {200, 201}"
    by (rule upload_acceptedE)
  with assms(1) show ?thesis
    by (auto simp: upload_document_def http_def upload_req_def insert_req_def Let_def
          upload_events_def insert_events_def split: option.splits sum.splits)
qed

text \<open>
  Claim C4. With the credentials set and the test file readable, let \<open>r\<close> be the answer
  to the storage upload. If its status is neither 200 nor 201, the script prints the
  status and the response body, stops with exit code 1, and the upload is the only
  request it has made. If the status is 200 or 201, the script goes on: it prints the
  success line and issues the document insert as its second request.
\<close>

theorem upload_status_gate:
  assumes "credentials w key" and "test_file w = Some c"
      and "server w [upload_req w key c] = Inr r"
  shows "(status_code r \<notin> {200, 201} \<longrightarrow>
            script w =
              (upload_events w key c @
               [Print [Lit ''ERROR: Failed to upload to storage: '', FmtInt (status_code r)],
                Print [Lit (text_body r)]],
               Exited 1) \<and>
            requests_of (fst (script w)) = [upload_req w key c])
       \<and> (status_code r \<in> {200, 201} \<longrightarrow>
            prefix (insert_events w key c) (fst (script w)) \<and>
            prefix [upload_req w key c, insert_req w key c] (requests_of (fst (script w))))"
proof (intro conjI impI)
  assume st: "status_code r \<notin> {200, 201}"
  show m: "script w =
              (upload_events w key c @
               [Print [Lit ''ERROR: Failed to upload to storage: '', FmtInt (status_code r)],
                Print [Lit (text_body r)]],
               Exited 1)"
    by (simp add: script_main [OF assms(1)] main_def upload_refused [OF assms(2,3) st])
  show "requests_of (fst (script w)) = [upload_req w key c]"
    by (simp add: m)
next
  assume st: "status_code r \<in> {200, 201}"
  then have acc: "upload_accepted w key c"
    using assms(3) by (simp add: upload_accepted_def)
  obtain ev res where "upload_document w key banner = (insert_events w key c @ ev, res)"
    using upload_accepted_requests [OF assms(2) acc] by blast
  then have "prefix (insert_events w key c) (fst (upload_document w key banner))"
    by simp
  then show p: "prefix (insert_events w key c) (fst (script w))"
    using main_extends [of w key] by (simp add: script_main [OF assms(1)])
  then obtain ev' where "fst (script w) = insert_events w key c @ ev'"
    by (auto simp: prefix_def)
  then show "prefix [upload_req w key c, insert_req w key c] (requests_of (fst (script w)))"
    by simp
qed

text \<open>
  Claim C10. If the upload is accepted and the insert answers 200 or 201 with the empty
  JSON list, the script ends right after the insert request with an uncaught
  \<open>IndexError\<close> (so not with a clean exit code 1).
\<close>

theorem empty_list_insert_raises_IndexError:
  assumes "credentials w key" and "test_file w = Some c"
      and "upload_accepted w key c"
      and "server w [upload_req w key c, insert_req w key c] = Inr r"
      and "status_code r \<in> {200, 201}"
      and "json_body r = Some (JArr [])"
  shows "script w = (insert_events w key c, Raised IndexError)"
  using assms(5,6)
  by (auto simp: script_main [OF assms(1)] main_def insert_answered [OF assms(2,3,4)]
        document_id_of_def)

subsection \<open>The function invocation\<close>

lemma run_refused:
  assumes "test_file w = Some c" and "document_created w key c d"
      and "server w [upload_req w key c, insert_req w key c, function_request key d] = Inr r"
      and "status_code r \<noteq> 202"
  shows "main w key =
           (function_events w key c d r @
            [Print [Lit (nl @ cross_mark @ '' Run failed with status ''), FmtInt (status_code r)]],
            Exited 1)"
proof -
  have t: "truthy d" using assms(2) by (rule document_createdE)
  have s: "server w (requests_of (insert_events w key c @
              [Print [Lit (check_mark @ '' Created document record: ''), Fmt d]]) @
              [function_request key d]) = Inr r"
    using assms(3) by simp
  show ?thesis
    using t assms(4)
    by (simp add: main_def document_created_upload [OF assms(1,2)] function_answered [OF s]
          function_events_def)
qed

lemma run_started:
  assumes "test_file w = Some c" and "document_created w key c d"
      and "server w [upload_req w key c, insert_req w key c, function_request key d] = Inr r"
      and "status_code r = 202" and "json_body r = Some res"
      and "dict_get res ''run_id'' JNull = Inr rid"
  shows "execute_processor_run w key d (fst (upload_document w key banner)) =
           (function_events w key c d r @
            [Print [Lit (nl @ check_mark @ '' Run initiated successfully!'')],
             Print [Lit (check_mark @ '' Run ID: ''), Fmt rid],
             Print [Lit (check_mark @ '' Monitor at: ''), Lit monitor_url]],
            Inr rid)"
proof -
  have s: "server w (requests_of (insert_events w key c @
              [Print [Lit (check_mark @ '' Created document record: ''), Fmt d]]) @
              [function_request key d]) = Inr r"
    using assms(3) by simp
  show ?thesis
    using assms(4-6)
    by (simp add: document_created_upload [OF assms(1,2)] function_answered [OF s]
          function_events_def)
qed

lemma main_run_started:
  assumes "test_file w = Some c" and "document_created w key c d"
      and "server w [upload_req w key c, insert_req w key c, function_request key d] = Inr r"
      and "status_code r = 202" and "json_body r = Some res"
      and "dict_get res ''run_id'' JNull = Inr rid"
  shows "main w key =
           (let tr2 = function_events w key c d r @
                  [Print [Lit (nl @ check_mark @ '' Run initiated successfully!'')],
                   Print [Lit (check_mark @ '' Run ID: ''), Fmt rid],
                   Print [Lit (check_mark @ '' Monitor at: ''), Lit monitor_url]]
            in if \<not> truthy rid then (tr2, Exited 1)
               else (case check_run_status w key rid (tr2 @ [Sleep 2]) of
                       (tr3, Inl e) \<Rightarrow> (tr3, Raised e)
                     | (tr3, Inr run) \<Rightarrow> (tr3 @ summary rid d, Exited 0)))"
proof -
  have t: "truthy d" using assms(2) by (rule document_createdE)
  have u: "upload_document w key banner = (fst (upload_document w key banner), Inr d)"
    by (simp add: document_created_upload [OF assms(1,2)])
  show ?thesis
    apply (subst main_def)
    apply (subst u)
    apply (simp add: t run_started [OF assms] Let_def)
    done
qed

text \<open>
  Claim C5. With steps 1 and 2 passed with document id \<open>d\<close>, let \<open>r\<close> be the answer
  to the function invocation. If its status is not 202, the script prints the failure
  line with the status, stops with exit code 1, and has made exactly three requests: no
  status check, no second attempt. If the status is 202 and the body is JSON from which
  \<open>.get('run_id')\<close> gives \<open>rid\<close>, the script prints the success lines with that run
  id, and, the run id being truthy, issues the status check for it as its fourth and
  last request.
\<close>

theorem function_status_gate:
  assumes "credentials w key" and "test_file w = Some c"
      and "document_created w key c d"
      and "server w [upload_req w key c, insert_req w key c, function_request key d] = Inr r"
  shows "(status_code r \<noteq> 202 \<longrightarrow>
            script w =
              (function_events w key c d r @
               [Print [Lit (nl @ cross_mark @ '' Run failed with status ''),
                       FmtInt (status_code r)]],
               Exited 1) \<and>
            requests_of (fst (script w)) =
              [upload_req w key c, insert_req w key c, function_request key d])
       \<and> (status_code r = 202 \<longrightarrow>
            (\<forall>res rid. json_body r = Some res \<and> dict_get res ''run_id'' JNull = Inr rid \<longrightarrow>
               prefix (function_events w key c d r @
                       [Print [Lit (nl @ check_mark @ '' Run initiated successfully!'')],
                        Print [Lit (check_mark @ '' Run ID: ''), Fmt rid],
                        Print [Lit (check_mark @ '' Monitor at: ''), Lit monitor_url]])
                      (fst (script w)) \<and>
               (truthy rid \<longrightarrow>
                  requests_of (fst (script w)) =
                    [upload_req w key c, insert_req w key c, function_request key d,
                     status_request key rid])))"
proof (intro conjI impI allI)
  assume st: "status_code r \<noteq> 202"
  show m: "script w =
              (function_events w key c d r @
               [Print [Lit (nl @ cross_mark @ '' Run failed with status ''),
                       FmtInt (status_code r)]],
               Exited 1)"
    by (simp add: script_main [OF assms(1)] run_refused [OF assms(2-4) st])
  show "requests_of (fst (script w)) =
              [upload_req w key c, insert_req w key c, function_request key d]"
    by (simp add: m)
next
  fix res rid
  assume st: "status_code r = 202"
    and b: "json_body r = Some res \<and> dict_get res ''run_id'' JNull = Inr rid"
  note m = main_run_started [OF assms(2-4) st conjunct1 [OF b] conjunct2 [OF b]]
  show "prefix (function_events w key c d r @
                       [Print [Lit (nl @ check_mark @ '' Run initiated successfully!'')],
                        Print [Lit (check_mark @ '' Run ID: ''), Fmt rid],
                        Print [Lit (check_mark @ '' Monitor at: ''), Lit monitor_url]])
                      (fst (script w))"
    by (auto simp: script_main [OF assms(1)] m Let_def prefix_def
          split: prod.splits sum.splits dest!: check_run_status_extends)
  show "requests_of (fst (script w)) =
                    [upload_req w key c, insert_req w key c, function_request key d,
                     status_request key rid]" if "truthy rid"
    using that check_run_status_requests [of w key rid "function_events w key c d r @
                       [Print [Lit (nl @ check_mark @ '' Run initiated successfully!'')],
                        Print [Lit (check_mark @ '' Run ID: ''), Fmt rid],
                        Print [Lit (check_mark @ '' Monitor at: ''), Lit monitor_url]] @ [Sleep 2]"]
    by (auto simp: script_main [OF assms(1)] m Let_def split: prod.splits sum.splits)
qed

subsection \<open>The status read\<close>

lemma main_status_read:
  assumes "test_file w = Some c" and "document_created w key c d"
      and "server w [upload_req w key c, insert_req w key c, function_request key d] = Inr r"
      and "status_code r = 202" and "json_body r = Some res"
      and "dict_get res ''run_id'' JNull = Inr rid" and "truthy rid"
      and "server w [upload_req w key c, insert_req w key c, function_request key d,
                     status_request key rid] = Inr r4"
  shows "main w key =
           (if status_code r4 = 200
            then (case json_body r4 of
                    None \<Rightarrow> (status_events w key c d r rid, Raised JSONDecodeError)
                  | Some runs \<Rightarrow>
                     if truthy runs
                     then (case item0 runs of
                             Inl e \<Rightarrow> (status_events w key c d r rid, Raised e)
                           | Inr run \<Rightarrow>
                              (case print_run run (status_events w key c d r rid) of
                                 (tr3, Inl e) \<Rightarrow> (tr3, Raised e)
                               | (tr3, Inr x) \<Rightarrow> (tr3 @ summary rid d, Exited 0)))
                     else (status_events w key c d r rid @ summary rid d, Exited 0))
            else (status_events w key c d r rid @ summary rid d, Exited 0))"
proof -
  have s: "server w (requests_of (function_events w key c d r @
                  [Print [Lit (nl @ check_mark @ '' Run initiated successfully!'')],
                   Print [Lit (check_mark @ '' Run ID: ''), Fmt rid],
                   Print [Lit (check_mark @ '' Monitor at: ''), Lit monitor_url], Sleep 2]) @
              [status_request key rid]) = Inr r4"
    using assms(8) by simp
  show ?thesis
    using assms(7)
    by (simp add: main_run_started [OF assms(1-6)] status_answered [OF s] Let_def
          status_events_def split: option.splits sum.splits)
qed

lemma print_run_complete:
  assumes "set [''status'', ''total_operations'', ''completed_operations'',
                ''failed_operations'', ''started_at''] \<subseteq> dom (map_of row)"
  shows "\<exists>ev. print_run (JObj row) tr = (tr @ ev, Inr (JObj row)) \<and> requests_of ev = []"
  using assms by (auto simp: print_run_def Let_def split: option.splits)

lemma run_accepted_status_read:
  assumes "test_file w = Some c" and "run_accepted w key c d rid"
      and "server w [upload_req w key c, insert_req w key c, function_request key d,
                     status_request key rid] = Inr r4"
      and "status_code r4 \<noteq> 200"
  shows "\<exists>r. main w key = (status_events w key c d r rid @ summary rid d, Exited 0)"
proof -
  from assms(2) obtain r res where h: "document_created w key c d"
    "server w [upload_req w key c, insert_req w key c, function_request key d] = Inr r"
    "status_code r = 202" "json_body r = Some res"
    "dict_get res ''run_id'' JNull = Inr rid" "truthy rid"
    by (rule run_acceptedE)
  have "main w key = (status_events w key c d r rid @ summary rid d, Exited 0)"
    using assms(4) by (simp add: main_status_read [OF assms(1) h assms(3)])
  then show ?thesis ..
qed

text \<open>
  Claim C1, as amended. With the credentials set and the test file readable: a
  non-success status of the storage upload (not 200 or 201), of the document insert (not
  200 or 201) or of the function invocation (not 202) is printed in an error line, the
  script stops with exit code 1, and the failed call is its last request. A status of
  the run-status read other than 200 is neither printed nor fatal: nothing is printed
  between the fourth request and the closing summary, and the script ends with exit
  code 0.
\<close>

theorem non_success_status_outcomes:
  assumes "credentials w key" and "test_file w = Some c"
  shows "(\<forall>r. server w [upload_req w key c] = Inr r \<and> status_code r \<notin> {200, 201} \<longrightarrow>
            snd (script w) = Exited 1 \<and>
            requests_of (fst (script w)) = [upload_req w key c] \<and>
            Print [Lit ''ERROR: Failed to upload to storage: '', FmtInt (status_code r)]
              \<in> set (fst (script w)))
       \<and> (\<forall>r. upload_accepted w key c \<and>
              server w [upload_req w key c, insert_req w key c] = Inr r \<and>
              status_code r \<notin> {200, 201} \<longrightarrow>
            snd (script w) = Exited 1 \<and>
            requests_of (fst (script w)) = [upload_req w key c, insert_req w key c] \<and>
            Print [Lit ''ERROR: Failed to create document record: '', FmtInt (status_code r)]
              \<in> set (fst (script w)))
       \<and> (\<forall>d r. document_created w key c d \<and>
              server w [upload_req w key c, insert_req w key c, function_request key d] = Inr r \<and>
              status_code r \<noteq> 202 \<longrightarrow>
            snd (script w) = Exited 1 \<and>
            requests_of (fst (script w)) =
              [upload_req w key c, insert_req w key c, function_request key d] \<and>
            Print [Lit (nl @ cross_mark @ '' Run failed with status ''), FmtInt (status_code r)]
              \<in> set (fst (script w)))
       \<and> (\<forall>d rid r. run_accepted w key c d rid \<and>
              server w [upload_req w key c, insert_req w key c, function_request key d,
                        status_request key rid] = Inr r \<and>
              status_code r \<noteq> 200 \<longrightarrow>
            snd (script w) = Exited 0 \<and>
            requests_of (fst (script w)) =
              [upload_req w key c, insert_req w key c, function_request key d,
               status_request key rid] \<and>
            (\<exists>pre. fst (script w) = pre @ [Http (status_request key rid)] @ summary rid d))"
proof (intro conjI allI impI)
  fix r
  assume a: "server w [upload_req w key c] = Inr r \<and> status_code r \<notin> {200, 201}"
  have m: "script w =
              (upload_events w key c @
               [Print [Lit ''ERROR: Failed to upload to storage: '', FmtInt (status_code r)],
                Print [Lit (text_body r)]],
               Exited 1)"
    by (simp add: script_main [OF assms(1)] main_def
          upload_refused [OF assms(2) conjunct1 [OF a] conjunct2 [OF a]])
  show "snd (script w) = Exited 1" by (simp add: m)
  show "requests_of (fst (script w)) = [upload_req w key c]" by (simp add: m)
  show "Print [Lit ''ERROR: Failed to upload to storage: '', FmtInt (status_code r)]
              \<in> set (fst (script w))" by (simp add: m)
next
  fix r
  assume a: "upload_accepted w key c \<and>
              server w [upload_req w key c, insert_req w key c] = Inr r \<and>
              status_code r \<notin> {200, 201}"
  then have st: "status_code r \<notin> {200, 201}" by blast
  have m: "script w =
              (insert_events w key c @
               [Print [Lit ''ERROR: Failed to create document record: '', FmtInt (status_code r)],
                Print [Lit (text_body r)]],
               Exited 1)"
    using st
    by (simp add: script_main [OF assms(1)] main_def
          insert_answered [OF assms(2) conjunct1 [OF a] conjunct1 [OF conjunct2 [OF a]]])
  show "snd (script w) = Exited 1" by (simp add: m)
  show "requests_of (fst (script w)) = [upload_req w key c, insert_req w key c]" by (simp add: m)
  show "Print [Lit ''ERROR: Failed to create document record: '', FmtInt (status_code r)]
              \<in> set (fst (script w))" by (simp add: m)
next
  fix d r
  assume a: "document_created w key c d \<and>
              server w [upload_req w key c, insert_req w key c, function_request key d] = Inr r \<and>
              status_code r \<noteq> 202"
  have m: "script w =
              (function_events w key c d r @
               [Print [Lit (nl @ cross_mark @ '' Run failed with status ''),
                       FmtInt (status_code r)]],
               Exited 1)"
    by (simp add: script_main [OF assms(1)]
          run_refused [OF assms(2) conjunct1 [OF a] conjunct1 [OF conjunct2 [OF a]]
            conjunct2 [OF conjunct2 [OF a]]])
  show "snd (script w) = Exited 1" by (simp add: m)
  show "requests_of (fst (script w)) =
              [upload_req w key c, insert_req w key c, function_request key d]" by (simp add: m)
  show "Print [Lit (nl @ cross_mark @ '' Run failed with status ''), FmtInt (status_code r)]
              \<in> set (fst (script w))" by (simp add: m)
next
  fix d rid r
  assume a: "run_accepted w key c d rid \<and>
              server w [upload_req w key c, insert_req w key c, function_request key d,
                        status_request key rid] = Inr r \<and>
              status_code r \<noteq> 200"
  obtain r3 where m: "script w = (status_events w key c d r3 rid @ summary rid d, Exited 0)"
    using run_accepted_status_read [OF assms(2) conjunct1 [OF a] conjunct1 [OF conjunct2 [OF a]]
            conjunct2 [OF conjunct2 [OF a]]]
    by (auto simp: script_main [OF assms(1)])
  show "snd (script w) = Exited 0" by (simp add: m)
  show "requests_of (fst (script w)) =
              [upload_req w key c, insert_req w key c, function_request key d,
               status_request key rid]" by (simp add: m)
  show "\<exists>pre. fst (script w) = pre @ [Http (status_request key rid)] @ summary rid d"
    by (rule exI [of _ "function_events w key c d r3 @
     [Print [Lit (nl @ check_mark @ '' Run initiated successfully!'')],
      Print [Lit (check_mark @ '' Run ID: ''), Fmt rid],
      Print [Lit (check_mark @ '' Monitor at: ''), Lit monitor_url],
      Sleep 2,
      Print [Lit (nl @ ''=== Step 4: Checking run status ==='')]]"])
       (simp add: m status_events_def)
qed

text \<open>
  Claim C6, as amended. When the insert answers 200 or 201 with a JSON object (or a list
  whose first element is an object) that has no \<open>id\<close> field, the script ends right
  after the insert request with an uncaught \<open>KeyError\<close>. When the function answers 202
  with a JSON object that has no \<open>run_id\<close> field, nothing is raised:
  \<open>.get('run_id')\<close> gives \<open>None\<close>, the script prints the success lines with run id
  \<open>None\<close> and then stops with exit code 1 without the status check.
\<close>

theorem missing_field_outcomes:
  assumes "credentials w key" and "test_file w = Some c"
  shows "(\<forall>r kvs others. upload_accepted w key c \<and>
              server w [upload_req w key c, insert_req w key c] = Inr r \<and>
              status_code r \<in> {200, 201} \<and>
              (json_body r = Some (JObj kvs) \<or> json_body r = Some (JArr (JObj kvs # others))) \<and>
              map_of kvs ''id'' = None \<longrightarrow>
            script w = (insert_events w key c, Raised KeyError))
       \<and> (\<forall>d r kvs. document_created w key c d \<and>
              server w [upload_req w key c, insert_req w key c, function_request key d] = Inr r \<and>
              status_code r = 202 \<and> json_body r = Some (JObj kvs) \<and>
              map_of kvs ''run_id'' = None \<longrightarrow>
            script w =
              (function_events w key c d r @
               [Print [Lit (nl @ check_mark @ '' Run initiated successfully!'')],
                Print [Lit (check_mark @ '' Run ID: ''), Fmt JNull],
                Print [Lit (check_mark @ '' Monitor at: ''), Lit monitor_url]],
               Exited 1))"
proof (intro conjI allI impI)
  fix r kvs others
  assume a: "upload_accepted w key c \<and>
              server w [upload_req w key c, insert_req w key c] = Inr r \<and>
              status_code r \<in> {200, 201} \<and>
              (json_body r = Some (JObj kvs) \<or> json_body r = Some (JArr (JObj kvs # others))) \<and>
              map_of kvs ''id'' = None"
  then have b: "status_code r \<in> {200, 201}"
    "json_body r = Some (JObj kvs) \<or> json_body r = Some (JArr (JObj kvs # others))"
    "map_of kvs ''id'' = None" by blast+
  show "script w = (insert_events w key c, Raised KeyError)"
    using b
    by (auto simp: script_main [OF assms(1)] main_def document_id_of_def
          insert_answered [OF assms(2) conjunct1 [OF a] conjunct1 [OF conjunct2 [OF a]]])
next
  fix d r kvs
  assume a: "document_created w key c d \<and>
              server w [upload_req w key c, insert_req w key c, function_request key d] = Inr r \<and>
              status_code r = 202 \<and> json_body r = Some (JObj kvs) \<and>
              map_of kvs ''run_id'' = None"
  then have b: "document_created w key c d"
    "server w [upload_req w key c, insert_req w key c, function_request key d] = Inr r"
    "status_code r = 202" "json_body r = Some (JObj kvs)" by blast+
  have g: "dict_get (JObj kvs) ''run_id'' JNull = Inr JNull"
    using a by simp
  show "script w =
              (function_events w key c d r @
               [Print [Lit (nl @ check_mark @ '' Run initiated successfully!'')],
                Print [Lit (check_mark @ '' Run ID: ''), Fmt JNull],
                Print [Lit (check_mark @ '' Monitor at: ''), Lit monitor_url]],
               Exited 1)"
    by (simp add: script_main [OF assms(1)] main_run_started [OF assms(2) b g])
qed

text \<open>
  Claim C2, as amended. Both variables set, the test file readable, and: the upload
  answers 200 or 201; the insert answers 200 or 201 with a JSON object (or a list whose
  first element is an object) whose \<open>id\<close> is truthy; the function answers 202 with a
  JSON object whose \<open>run_id\<close> is truthy; the status read answers 200 with a list whose
  first row is an object that has the fields \<open>status\<close>, \<open>total_operations\<close>,
  \<open>completed_operations\<close>, \<open>failed_operations\<close> and \<open>started_at\<close>. Then the script
  issues the four requests in order (upload, insert, function invocation, status read),
  prints the closing summary last, and ends with exit code 0.
\<close>

theorem full_run_exits_zero:
  assumes "credentials w key" and "test_file w = Some c"
      and "server w [upload_req w key c] = Inr r1"
      and "status_code r1 \<in> {200, 201}"
      and "server w [upload_req w key c, insert_req w key c] = Inr r2"
      and "status_code r2 \<in> {200, 201}"
      and "json_body r2 = Some (JObj kvs) \<or> json_body r2 = Some (JArr (JObj kvs # others))"
      and "map_of kvs ''id'' = Some d" and "truthy d"
      and "server w [upload_req w key c, insert_req w key c, function_request key d] = Inr r3"
      and "status_code r3 = 202"
      and "json_body r3 = Some (JObj res)"
      and "map_of res ''run_id'' = Some rid" and "truthy rid"
      and "server w [upload_req w key c, insert_req w key c, function_request key d,
                     status_request key rid] = Inr r4"
      and "status_code r4 = 200"
      and "json_body r4 = Some (JArr (JObj row # rows))"
      and "set [''status'', ''total_operations'', ''completed_operations'',
                ''failed_operations'', ''started_at''] \<subseteq> dom (map_of row)"
  shows "snd (script w) = Exited 0 \<and>
         requests_of (fst (script w)) =
           [upload_req w key c, insert_req w key c, function_request key d,
            status_request key rid] \<and>
         prefix (status_events w key c d r3 rid) (fst (script w)) \<and>
         suffix (summary rid d) (fst (script w))"
proof -
  have acc: "upload_accepted w key c"
    using assms(3,4) by (simp add: upload_accepted_def)
  have doc: "document_created w key c d"
    using assms(5-9) acc by (auto simp: document_created_def document_id_of_def)
  have g: "dict_get (JObj res) ''run_id'' JNull = Inr rid"
    using assms(13) by simp
  obtain ev where p: "print_run (JObj row) (status_events w key c d r3 rid) =
      (status_events w key c d r3 rid @ ev, Inr (JObj row))" and e: "requests_of ev = []"
    using print_run_complete [OF assms(18)] by blast
  have m: "script w = (status_events w key c d r3 rid @ ev @ summary rid d, Exited 0)"
    using assms(16,17) p
    by (simp add: script_main [OF assms(1)]
          main_status_read [OF assms(2) doc assms(10,11,12) g assms(14,15)])
  show ?thesis
    by (simp add: m e suffix_def)
qed

subsection \<open>Runs in the concrete worlds\<close>

lemma demo_requests:
  "upload_req (demo_world a) key c = upload_request key demo_path c"
  "insert_req (demo_world a) key c = insert_request key demo_path c"
  by (simp_all add: upload_req_def insert_req_def demo_urandom demo_storage_path)

lemma demo_upload_accepted:
  "upload_accepted (demo_world (upload_ok # a)) ''service-key'' [0x68, 0x69]"
  by (simp add: upload_accepted_def demo_server upload_ok_def resp_def)

lemma demo_document_created:
  "document_created (demo_world (upload_ok # insert_ok # a)) ''service-key'' [0x68, 0x69]
     (JStr ''doc-1'')"
  by (simp add: document_created_def demo_upload_accepted demo_server insert_ok_def resp_def
        document_id_of_def)

lemma demo_run_accepted:
  "run_accepted (demo_world (upload_ok # insert_ok # function_ok # a)) ''service-key''
     [0x68, 0x69] (JStr ''doc-1'') (JStr ''run-1'')"
  by (simp add: run_accepted_def demo_document_created demo_server function_ok_def resp_def)

text \<open>
  Claim C1 as stated fails: upload, insert and function invocation succeed, the
  run-status read is answered with status 500, and the script ends with exit code 0.
\<close>

theorem status_read_failure_exits_zero:
  "server (demo_world [upload_ok, insert_ok, function_ok, status_500])
     (requests_of (fst (script (demo_world [upload_ok, insert_ok, function_ok, status_500]))))
     = Inr (resp 500 ''Internal Server Error'' None) \<and>
   snd (script (demo_world [upload_ok, insert_ok, function_ok, status_500])) = Exited 0"
proof -
  have s: "server (demo_world [upload_ok, insert_ok, function_ok, status_500])
     [upload_req (demo_world [upload_ok, insert_ok, function_ok, status_500]) ''service-key'' [0x68, 0x69],
      insert_req (demo_world [upload_ok, insert_ok, function_ok, status_500]) ''service-key'' [0x68, 0x69],
      function_request ''service-key'' (JStr ''doc-1''),
      status_request ''service-key'' (JStr ''run-1'')] = Inr (resp 500 ''Internal Server Error'' None)"
    by (simp add: demo_server status_500_def)
  have st: "status_code (resp 500 ''Internal Server Error'' None) \<noteq> 200"
    by (simp add: resp_def)
  obtain r where "main (demo_world [upload_ok, insert_ok, function_ok, status_500]) ''service-key'' =
      (status_events (demo_world [upload_ok, insert_ok, function_ok, status_500]) ''service-key''
         [0x68, 0x69] (JStr ''doc-1'') r (JStr ''run-1'') @ summary (JStr ''run-1'') (JStr ''doc-1''),
       Exited 0)"
    using run_accepted_status_read [OF demo_file demo_run_accepted s st] by blast
  then show ?thesis
    using s by (simp add: script_main [OF demo_credentials])
qed

text \<open>
  Claim C6 as stated fails: the function answers 202 with a JSON object without
  \<open>run_id\<close>, and the script raises nothing; it ends with exit code 1.
\<close>

theorem missing_run_id_exits_cleanly:
  "server (demo_world [upload_ok, insert_ok, function_no_run_id])
     (requests_of (fst (script (demo_world [upload_ok, insert_ok, function_no_run_id]))))
     = Inr (resp 202 ''{queued:true}'' (Some (JObj [(''queued'', JBool True)]))) \<and>
   snd (script (demo_world [upload_ok, insert_ok, function_no_run_id])) = Exited 1"
proof -
  have s: "server (demo_world [upload_ok, insert_ok, function_no_run_id])
     [upload_req (demo_world [upload_ok, insert_ok, function_no_run_id]) ''service-key'' [0x68, 0x69],
      insert_req (demo_world [upload_ok, insert_ok, function_no_run_id]) ''service-key'' [0x68, 0x69],
      function_request ''service-key'' (JStr ''doc-1'')]
     = Inr (resp 202 ''{queued:true}'' (Some (JObj [(''queued'', JBool True)])))"
    by (simp add: demo_server function_no_run_id_def)
  have a: "status_code (resp 202 ''{queued:true}'' (Some (JObj [(''queued'', JBool True)]))) = 202"
    "json_body (resp 202 ''{queued:true}'' (Some (JObj [(''queued'', JBool True)])))
       = Some (JObj [(''queued'', JBool True)])"
    "dict_get (JObj [(''queued'', JBool True)]) ''run_id'' JNull = Inr JNull"
    by (simp_all add: resp_def)
  show ?thesis
    using s
    by (simp add: script_main [OF demo_credentials]
          main_run_started [OF demo_file demo_document_created s a])
qed

lemma demo_answers:
  "server (demo_world (a1 # a)) [upload_req (demo_world (a1 # a)) key c] = a1"
  "server (demo_world (a1 # a2 # a))
     [upload_req (demo_world (a1 # a2 # a)) key c, insert_req (demo_world (a1 # a2 # a)) key c] = a2"
  "server (demo_world (a1 # a2 # a3 # a))
     [upload_req (demo_world (a1 # a2 # a3 # a)) key c,
      insert_req (demo_world (a1 # a2 # a3 # a)) key c, q3] = a3"
  "server (demo_world (a1 # a2 # a3 # a4 # a))
     [upload_req (demo_world (a1 # a2 # a3 # a4 # a)) key c,
      insert_req (demo_world (a1 # a2 # a3 # a4 # a)) key c, q3, q4] = a4"
  by (simp_all add: demo_server)

text \<open>
  Claim C2 as stated fails. All four answers carry their success status and the fields
  the claim names, and the script does not end with exit code 0: an insert answering
  \<open>id\<close> 0 and a function answering \<open>run_id\<close> null both end in exit code 1 (the
  identifier fails the truth test of the main block), and a status read whose only row
  has just the \<open>status\<close> field ends in an uncaught \<open>KeyError\<close>.
\<close>

theorem success_statuses_without_exit_zero:
  "snd (script (demo_world [upload_ok, insert_id_zero, function_ok, status_ok])) = Exited 1 \<and>
   snd (script (demo_world [upload_ok, insert_ok, function_null_run_id, status_ok])) = Exited 1 \<and>
   snd (script (demo_world [upload_ok, insert_ok, function_ok, status_partial_row]))
     = Raised KeyError"
proof (intro conjI)
  show "snd (script (demo_world [upload_ok, insert_id_zero, function_ok, status_ok])) = Exited 1"
    by (simp add: script_main [OF demo_credentials] main_def
          insert_answered [OF demo_file demo_upload_accepted demo_answers(2)]
          insert_id_zero_def resp_def document_id_of_def)
next
  have a: "status_code (resp 202 ''{run_id:null}'' (Some (JObj [(''run_id'', JNull)]))) = 202"
    "json_body (resp 202 ''{run_id:null}'' (Some (JObj [(''run_id'', JNull)])))
       = Some (JObj [(''run_id'', JNull)])"
    "dict_get (JObj [(''run_id'', JNull)]) ''run_id'' JNull = Inr JNull"
    by (simp_all add: resp_def)
  show "snd (script (demo_world [upload_ok, insert_ok, function_null_run_id, status_ok])) = Exited 1"
    by (simp add: script_main [OF demo_credentials]
          main_run_started [OF demo_file demo_document_created
            trans [OF demo_answers(3) function_null_run_id_def] a])
next
  have a: "status_code (resp 202 ''{run_id:run-1}'' (Some (JObj [(''run_id'', JStr ''run-1'')]))) = 202"
    "json_body (resp 202 ''{run_id:run-1}'' (Some (JObj [(''run_id'', JStr ''run-1'')])))
       = Some (JObj [(''run_id'', JStr ''run-1'')])"
    "dict_get (JObj [(''run_id'', JStr ''run-1'')]) ''run_id'' JNull = Inr (JStr ''run-1'')"
    "truthy (JStr ''run-1'')"
    by (simp_all add: resp_def)
  show "snd (script (demo_world [upload_ok, insert_ok, function_ok, status_partial_row]))
     = Raised KeyError"
    by (simp add: script_main [OF demo_credentials]
          main_status_read [OF demo_file demo_document_created
            trans [OF demo_answers(3) function_ok_def] a
            trans [OF demo_answers(4) status_partial_row_def]]
          resp_def print_run_def)
qed

text \<open>
  Runs of claim C4: an upload answered 503 (exit code 1, one request), and an upload
  answered 201 (the insert follows).
\<close>

theorem upload_status_gate_witness:
  "server (demo_world [upload_503])
     [upload_req (demo_world [upload_503]) ''service-key'' [0x68, 0x69]]
     = Inr (resp 503 ''Service Unavailable'' None) \<and>
   snd (script (demo_world [upload_503])) = Exited 1 \<and>
   requests_of (fst (script (demo_world [upload_503])))
     = [upload_request ''service-key'' demo_path [0x68, 0x69]] \<and>
   server (demo_world [upload_ok, insert_ok, function_ok, status_ok])
     [upload_req (demo_world [upload_ok, insert_ok, function_ok, status_ok]) ''service-key'' [0x68, 0x69]]
     = Inr (resp 201 ''{}'' (Some (JObj []))) \<and>
   prefix [upload_request ''service-key'' demo_path [0x68, 0x69],
           insert_request ''service-key'' demo_path [0x68, 0x69]]
     (requests_of (fst (script (demo_world [upload_ok, insert_ok, function_ok, status_ok]))))"
proof -
  have s1: "server (demo_world [upload_503])
     [upload_req (demo_world [upload_503]) ''service-key'' [0x68, 0x69]]
     = Inr (resp 503 ''Service Unavailable'' None)"
    by (simp add: demo_answers upload_503_def)
  have s2: "server (demo_world [upload_ok, insert_ok, function_ok, status_ok])
     [upload_req (demo_world [upload_ok, insert_ok, function_ok, status_ok]) ''service-key'' [0x68, 0x69]]
     = Inr (resp 201 ''{}'' (Some (JObj [])))"
    by (simp add: demo_answers upload_ok_def)
  show ?thesis
    using upload_status_gate [OF demo_credentials demo_file s1]
      upload_status_gate [OF demo_credentials demo_file s2] s1 s2
    by (simp add: resp_def demo_requests)
qed

text \<open>A run of claim C10: upload accepted, insert answered 201 with \<open>[]\<close>.\<close>

theorem empty_list_insert_witness:
  "upload_accepted (demo_world [upload_ok, insert_empty_list]) ''service-key'' [0x68, 0x69] \<and>
   server (demo_world [upload_ok, insert_empty_list])
     [upload_req (demo_world [upload_ok, insert_empty_list]) ''service-key'' [0x68, 0x69],
      insert_req (demo_world [upload_ok, insert_empty_list]) ''service-key'' [0x68, 0x69]]
     = Inr (resp 201 ''[]'' (Some (JArr []))) \<and>
   snd (script (demo_world [upload_ok, insert_empty_list])) = Raised IndexError"
proof -
  have s: "server (demo_world [upload_ok, insert_empty_list])
     [upload_req (demo_world [upload_ok, insert_empty_list]) ''service-key'' [0x68, 0x69],
      insert_req (demo_world [upload_ok, insert_empty_list]) ''service-key'' [0x68, 0x69]]
     = Inr (resp 201 ''[]'' (Some (JArr [])))"
    by (simp add: demo_answers insert_empty_list_def)
  have a: "status_code (resp 201 ''[]'' (Some (JArr []))) \<in> {200, 201}"
    "json_body (resp 201 ''[]'' (Some (JArr []))) = Some (JArr [])"
    by (simp_all add: resp_def)
  show ?thesis
    using empty_list_insert_raises_IndexError [OF demo_credentials demo_file demo_upload_accepted s a]
      s demo_upload_accepted
    by simp
qed

text \<open>
  Runs of claim C5: a function invocation answered 500 (exit code 1, three requests), and
  one answered 202 with run id \<open>run-1\<close> (the status read for \<open>run-1\<close> follows).
\<close>

theorem function_status_gate_witness:
  "document_created (demo_world [upload_ok, insert_ok, function_500]) ''service-key'' [0x68, 0x69]
     (JStr ''doc-1'') \<and>
   server (demo_world [upload_ok, insert_ok, function_500])
     [upload_req (demo_world [upload_ok, insert_ok, function_500]) ''service-key'' [0x68, 0x69],
      insert_req (demo_world [upload_ok, insert_ok, function_500]) ''service-key'' [0x68, 0x69],
      function_request ''service-key'' (JStr ''doc-1'')]
     = Inr (resp 500 ''Internal Server Error'' None) \<and>
   snd (script (demo_world [upload_ok, insert_ok, function_500])) = Exited 1 \<and>
   requests_of (fst (script (demo_world [upload_ok, insert_ok, function_500])))
     = [upload_request ''service-key'' demo_path [0x68, 0x69],
        insert_request ''service-key'' demo_path [0x68, 0x69],
        function_request ''service-key'' (JStr ''doc-1'')] \<and>
   server (demo_world [upload_ok, insert_ok, function_ok, status_ok])
     [upload_req (demo_world [upload_ok, insert_ok, function_ok, status_ok]) ''service-key'' [0x68, 0x69],
      insert_req (demo_world [upload_ok, insert_ok, function_ok, status_ok]) ''service-key'' [0x68, 0x69],
      function_request ''service-key'' (JStr ''doc-1'')]
     = Inr (resp 202 ''{run_id:run-1}'' (Some (JObj [(''run_id'', JStr ''run-1'')]))) \<and>
   requests_of (fst (script (demo_world [upload_ok, insert_ok, function_ok, status_ok])))
     = [upload_request ''service-key'' demo_path [0x68, 0x69],
        insert_request ''service-key'' demo_path [0x68, 0x69],
        function_request ''service-key'' (JStr ''doc-1''),
        status_request ''service-key'' (JStr ''run-1'')]"
proof -
  have s1: "server (demo_world [upload_ok, insert_ok, function_500])
     [upload_req (demo_world [upload_ok, insert_ok, function_500]) ''service-key'' [0x68, 0x69],
      insert_req (demo_world [upload_ok, insert_ok, function_500]) ''service-key'' [0x68, 0x69],
      function_request ''service-key'' (JStr ''doc-1'')]
     = Inr (resp 500 ''Internal Server Error'' None)"
    by (simp add: demo_answers function_500_def)
  have s2: "server (demo_world [upload_ok, insert_ok, function_ok, status_ok])
     [upload_req (demo_world [upload_ok, insert_ok, function_ok, status_ok]) ''service-key'' [0x68, 0x69],
      insert_req (demo_world [upload_ok, insert_ok, function_ok, status_ok]) ''service-key'' [0x68, 0x69],
      function_request ''service-key'' (JStr ''doc-1'')]
     = Inr (resp 202 ''{run_id:run-1}'' (Some (JObj [(''run_id'', JStr ''run-1'')])))"
    by (simp add: demo_answers function_ok_def)
  show ?thesis
    using function_status_gate [OF demo_credentials demo_file demo_document_created s1]
      function_status_gate [OF demo_credentials demo_file demo_document_created s2]
      s1 s2 demo_document_created [of "[function_500]"]
    by (simp add: resp_def demo_requests)
qed

text \<open>
  Runs of claim C1 as amended: a failing status at the first, second and third call ends
  in exit code 1; at the fourth call the script still makes all four requests (and, by
  the counterexample above, exits 0).
\<close>

theorem non_success_status_outcomes_witness:
  "server (demo_world [upload_503])
     [upload_req (demo_world [upload_503]) ''service-key'' [0x68, 0x69]]
     = Inr (resp 503 ''Service Unavailable'' None) \<and>
   snd (script (demo_world [upload_503])) = Exited 1 \<and>
   server (demo_world [upload_ok, insert_400])
     [upload_req (demo_world [upload_ok, insert_400]) ''service-key'' [0x68, 0x69],
      insert_req (demo_world [upload_ok, insert_400]) ''service-key'' [0x68, 0x69]]
     = Inr (resp 400 ''Bad Request'' None) \<and>
   snd (script (demo_world [upload_ok, insert_400])) = Exited 1 \<and>
   server (demo_world [upload_ok, insert_ok, function_500])
     [upload_req (demo_world [upload_ok, insert_ok, function_500]) ''service-key'' [0x68, 0x69],
      insert_req (demo_world [upload_ok, insert_ok, function_500]) ''service-key'' [0x68, 0x69],
      function_request ''service-key'' (JStr ''doc-1'')]
     = Inr (resp 500 ''Internal Server Error'' None) \<and>
   snd (script (demo_world [upload_ok, insert_ok, function_500])) = Exited 1 \<and>
   server (demo_world [upload_ok, insert_ok, function_ok, status_500])
     [upload_req (demo_world [upload_ok, insert_ok, function_ok, status_500]) ''service-key'' [0x68, 0x69],
      insert_req (demo_world [upload_ok, insert_ok, function_ok, status_500]) ''service-key'' [0x68, 0x69],
      function_request ''service-key'' (JStr ''doc-1''),
      status_request ''service-key'' (JStr ''run-1'')]
     = Inr (resp 500 ''Internal Server Error'' None) \<and>
   requests_of (fst (script (demo_world [upload_ok, insert_ok, function_ok, status_500])))
     = [upload_request ''service-key'' demo_path [0x68, 0x69],
        insert_request ''service-key'' demo_path [0x68, 0x69],
        function_request ''service-key'' (JStr ''doc-1''),
        status_request ''service-key'' (JStr ''run-1'')]"
proof -
  note T = non_success_status_outcomes [OF demo_credentials demo_file]
  have s1: "server (demo_world [upload_503])
     [upload_req (demo_world [upload_503]) ''service-key'' [0x68, 0x69]]
     = Inr (resp 503 ''Service Unavailable'' None)"
    by (simp add: demo_answers upload_503_def)
  have s2: "server (demo_world [upload_ok, insert_400])
     [upload_req (demo_world [upload_ok, insert_400]) ''service-key'' [0x68, 0x69],
      insert_req (demo_world [upload_ok, insert_400]) ''service-key'' [0x68, 0x69]]
     = Inr (resp 400 ''Bad Request'' None)"
    by (simp add: demo_answers insert_400_def)
  have s3: "server (demo_world [upload_ok, insert_ok, function_500])
     [upload_req (demo_world [upload_ok, insert_ok, function_500]) ''service-key'' [0x68, 0x69],
      insert_req (demo_world [upload_ok, insert_ok, function_500]) ''service-key'' [0x68, 0x69],
      function_request ''service-key'' (JStr ''doc-1'')]
     = Inr (resp 500 ''Internal Server Error'' None)"
    by (simp add: demo_answers function_500_def)
  have s4: "server (demo_world [upload_ok, insert_ok, function_ok, status_500])
     [upload_req (demo_world [upload_ok, insert_ok, function_ok, status_500]) ''service-key'' [0x68, 0x69],
      insert_req (demo_world [upload_ok, insert_ok, function_ok, status_500]) ''service-key'' [0x68, 0x69],
      function_request ''service-key'' (JStr ''doc-1''),
      status_request ''service-key'' (JStr ''run-1'')]
     = Inr (resp 500 ''Internal Server Error'' None)"
    by (simp add: demo_answers status_500_def)
  have c1: "snd (script (demo_world [upload_503])) = Exited 1"
    using T [of "[upload_503]", THEN conjunct1, rule_format, of "resp 503 ''Service Unavailable'' None"] s1
    by (simp add: resp_def)
  have c2: "snd (script (demo_world [upload_ok, insert_400])) = Exited 1"
    using T [of "[upload_ok, insert_400]", THEN conjunct2, THEN conjunct1, rule_format,
        of "resp 400 ''Bad Request'' None"] s2 demo_upload_accepted
    by (simp add: resp_def)
  have c3: "snd (script (demo_world [upload_ok, insert_ok, function_500])) = Exited 1"
    using T [of "[upload_ok, insert_ok, function_500]", THEN conjunct2, THEN conjunct2,
        THEN conjunct1, rule_format, of "JStr ''doc-1''" "resp 500 ''Internal Server Error'' None"]
      s3 demo_document_created
    by (simp add: resp_def)
  have c4: "requests_of (fst (script (demo_world [upload_ok, insert_ok, function_ok, status_500])))
     = [upload_request ''service-key'' demo_path [0x68, 0x69],
        insert_request ''service-key'' demo_path [0x68, 0x69],
        function_request ''service-key'' (JStr ''doc-1''),
        status_request ''service-key'' (JStr ''run-1'')]"
    using T [of "[upload_ok, insert_ok, function_ok, status_500]", THEN conjunct2, THEN conjunct2,
        THEN conjunct2, rule_format,
        of "JStr ''doc-1''" "JStr ''run-1''" "resp 500 ''Internal Server Error'' None"]
      s4 demo_run_accepted
    by (simp add: resp_def demo_requests)
  show ?thesis using s1 s2 s3 s4 c1 c2 c3 c4 by simp
qed

text \<open>
  Runs of claim C6 as amended: an insert answer without \<open>id\<close> (uncaught
  \<open>KeyError\<close>), and a 202 answer without \<open>run_id\<close> (exit code 1).
\<close>

theorem missing_field_outcomes_witness:
  "server (demo_world [upload_ok, insert_no_id])
     [upload_req (demo_world [upload_ok, insert_no_id]) ''service-key'' [0x68, 0x69],
      insert_req (demo_world [upload_ok, insert_no_id]) ''service-key'' [0x68, 0x69]]
     = Inr (resp 201 ''{name:test-contract.txt}'' (Some (JObj [(''name'', JStr ''test-contract.txt'')]))) \<and>
   map_of [(''name'', JStr ''test-contract.txt'')] ''id'' = None \<and>
   snd (script (demo_world [upload_ok, insert_no_id])) = Raised KeyError \<and>
   server (demo_world [upload_ok, insert_ok, function_no_run_id])
     [upload_req (demo_world [upload_ok, insert_ok, function_no_run_id]) ''service-key'' [0x68, 0x69],
      insert_req (demo_world [upload_ok, insert_ok, function_no_run_id]) ''service-key'' [0x68, 0x69],
      function_request ''service-key'' (JStr ''doc-1'')]
     = Inr (resp 202 ''{queued:true}'' (Some (JObj [(''queued'', JBool True)]))) \<and>
   map_of [(''queued'', JBool True)] ''run_id'' = None \<and>
   snd (script (demo_world [upload_ok, insert_ok, function_no_run_id])) = Exited 1"
proof -
  note T = missing_field_outcomes [OF demo_credentials demo_file]
  have s1: "server (demo_world [upload_ok, insert_no_id])
     [upload_req (demo_world [upload_ok, insert_no_id]) ''service-key'' [0x68, 0x69],
      insert_req (demo_world [upload_ok, insert_no_id]) ''service-key'' [0x68, 0x69]]
     = Inr (resp 201 ''{name:test-contract.txt}'' (Some (JObj [(''name'', JStr ''test-contract.txt'')])))"
    by (simp add: demo_answers insert_no_id_def)
  have s2: "server (demo_world [upload_ok, insert_ok, function_no_run_id])
     [upload_req (demo_world [upload_ok, insert_ok, function_no_run_id]) ''service-key'' [0x68, 0x69],
      insert_req (demo_world [upload_ok, insert_ok, function_no_run_id]) ''service-key'' [0x68, 0x69],
      function_request ''service-key'' (JStr ''doc-1'')]
     = Inr (resp 202 ''{queued:true}'' (Some (JObj [(''queued'', JBool True)])))"
    by (simp add: demo_answers function_no_run_id_def)
  have c1: "snd (script (demo_world [upload_ok, insert_no_id])) = Raised KeyError"
    using T [of "[upload_ok, insert_no_id]", THEN conjunct1, rule_format,
        of "resp 201 ''{name:test-contract.txt}'' (Some (JObj [(''name'', JStr ''test-contract.txt'')]))"
           "[(''name'', JStr ''test-contract.txt'')]" "[]"] s1 demo_upload_accepted
    by (simp add: resp_def)
  have c2: "snd (script (demo_world [upload_ok, insert_ok, function_no_run_id])) = Exited 1"
    using T [of "[upload_ok, insert_ok, function_no_run_id]", THEN conjunct2, rule_format,
        of "JStr ''doc-1''" "resp 202 ''{queued:true}'' (Some (JObj [(''queued'', JBool True)]))"
           "[(''queued'', JBool True)]"] s2 demo_document_created
    by (simp add: resp_def)
  show ?thesis using s1 s2 c1 c2 by simp
qed

text \<open>
  A run of claim C2 as amended: the end-to-end scenario of the specification (201, 201
  with id \<open>doc-1\<close>, 202 with run id \<open>run-1\<close>, 200 with one complete row).
\<close>

theorem full_run_exits_zero_witness:
  "credentials (demo_world [upload_ok, insert_ok, function_ok, status_ok]) ''service-key'' \<and>
   test_file (demo_world [upload_ok, insert_ok, function_ok, status_ok]) = Some [0x68, 0x69] \<and>
   snd (script (demo_world [upload_ok, insert_ok, function_ok, status_ok])) = Exited 0 \<and>
   requests_of (fst (script (demo_world [upload_ok, insert_ok, function_ok, status_ok])))
     = [upload_request ''service-key'' demo_path [0x68, 0x69],
        insert_request ''service-key'' demo_path [0x68, 0x69],
        function_request ''service-key'' (JStr ''doc-1''),
        status_request ''service-key'' (JStr ''run-1'')] \<and>
   suffix (summary (JStr ''run-1'') (JStr ''doc-1''))
     (fst (script (demo_world [upload_ok, insert_ok, function_ok, status_ok])))"
proof -
  have s: "server (demo_world [upload_ok, insert_ok, function_ok, status_ok])
       [upload_req (demo_world [upload_ok, insert_ok, function_ok, status_ok]) ''service-key'' [0x68, 0x69]]
       = Inr (resp 201 ''{}'' (Some (JObj [])))"
    "server (demo_world [upload_ok, insert_ok, function_ok, status_ok])
       [upload_req (demo_world [upload_ok, insert_ok, function_ok, status_ok]) ''service-key'' [0x68, 0x69],
        insert_req (demo_world [upload_ok, insert_ok, function_ok, status_ok]) ''service-key'' [0x68, 0x69]]
       = Inr (resp 201 ''{id:doc-1}'' (Some (JObj [(''id'', JStr ''doc-1'')])))"
    "server (demo_world [upload_ok, insert_ok, function_ok, status_ok])
       [upload_req (demo_world [upload_ok, insert_ok, function_ok, status_ok]) ''service-key'' [0x68, 0x69],
        insert_req (demo_world [upload_ok, insert_ok, function_ok, status_ok]) ''service-key'' [0x68, 0x69],
        function_request ''service-key'' (JStr ''doc-1'')]
       = Inr (resp 202 ''{run_id:run-1}'' (Some (JObj [(''run_id'', JStr ''run-1'')])))"
    "server (demo_world [upload_ok, insert_ok, function_ok, status_ok])
       [upload_req (demo_world [upload_ok, insert_ok, function_ok, status_ok]) ''service-key'' [0x68, 0x69],
        insert_req (demo_world [upload_ok, insert_ok, function_ok, status_ok]) ''service-key'' [0x68, 0x69],
        function_request ''service-key'' (JStr ''doc-1''),
        status_request ''service-key'' (JStr ''run-1'')]
       = Inr (resp 200 ''[...]'' (Some (JArr [JObj
           [(''status'', JStr ''completed''), (''total_operations'', JInt 3),
            (''completed_operations'', JInt 3), (''failed_operations'', JInt 0),
            (''started_at'', JStr ''t0'')]])))"
    by (simp_all add: demo_answers upload_ok_def insert_ok_def function_ok_def status_ok_def
          demo_row_def)
  have a: "status_code (resp 201 ''{}'' (Some (JObj []))) \<in> {200, 201}"
    "status_code (resp 201 ''{id:doc-1}'' (Some (JObj [(''id'', JStr ''doc-1'')]))) \<in> {200, 201}"
    "json_body (resp 201 ''{id:doc-1}'' (Some (JObj [(''id'', JStr ''doc-1'')])))
       = Some (JObj [(''id'', JStr ''doc-1'')]) \<or>
     json_body (resp 201 ''{id:doc-1}'' (Some (JObj [(''id'', JStr ''doc-1'')])))
       = Some (JArr (JObj [(''id'', JStr ''doc-1'')] # []))"
    "map_of [(''id'', JStr ''doc-1'')] ''id'' = Some (JStr ''doc-1'')"
    "truthy (JStr ''doc-1'')"
    "status_code (resp 202 ''{run_id:run-1}'' (Some (JObj [(''run_id'', JStr ''run-1'')]))) = 202"
    "json_body (resp 202 ''{run_id:run-1}'' (Some (JObj [(''run_id'', JStr ''run-1'')])))
       = Some (JObj [(''run_id'', JStr ''run-1'')])"
    "map_of [(''run_id'', JStr ''run-1'')] ''run_id'' = Some (JStr ''run-1'')"
    "truthy (JStr ''run-1'')"
    by (simp_all add: resp_def)
  have b: "status_code (resp 200 ''[...]'' (Some (JArr [JObj
           [(''status'', JStr ''completed''), (''total_operations'', JInt 3),
            (''completed_operations'', JInt 3), (''failed_operations'', JInt 0),
            (''started_at'', JStr ''t0'')]]))) = 200"
    "json_body (resp 200 ''[...]'' (Some (JArr [JObj
           [(''status'', JStr ''completed''), (''total_operations'', JInt 3),
            (''completed_operations'', JInt 3), (''failed_operations'', JInt 0),
            (''started_at'', JStr ''t0'')]]))) = Some (JArr (JObj
           [(''status'', JStr ''completed''), (''total_operations'', JInt 3),
            (''completed_operations'', JInt 3), (''failed_operations'', JInt 0),
            (''started_at'', JStr ''t0'')] # []))"
    "set [''status'', ''total_operations'', ''completed_operations'',
          ''failed_operations'', ''started_at''] \<subseteq> dom (map_of
           [(''status'', JStr ''completed''), (''total_operations'', JInt 3),
            (''completed_operations'', JInt 3), (''failed_operations'', JInt 0),
            (''started_at'', JStr ''t0'')])"
    by (simp_all add: resp_def)
  show ?thesis
    using full_run_exits_zero [OF demo_credentials demo_file s(1) a(1) s(2) a(2-5) s(3) a(6-9)
        s(4) b]
      demo_credentials demo_file
    by (simp add: demo_requests)
qed

text \<open>
  A run of claim C9: two values of the anonymous key, the same run; and the upload
  request of that run carries the service-role key as bearer token.
\<close>

theorem anon_key_never_used_witness:
  "''anon-A'' \<noteq> [] \<and> ''anon-B'' \<noteq> [] \<and>
   script (demo_world [upload_503]
             \<lparr>environ := (environ (demo_world [upload_503]))(ANON_KEY_NAME \<mapsto> ''anon-A'')\<rparr>) =
   script (demo_world [upload_503]
             \<lparr>environ := (environ (demo_world [upload_503]))(ANON_KEY_NAME \<mapsto> ''anon-B'')\<rparr>) \<and>
   upload_request ''service-key'' demo_path [0x68, 0x69]
     \<in> set (requests_of (fst (script (demo_world [upload_503])))) \<and>
   map_of (headers (upload_request ''service-key'' demo_path [0x68, 0x69])) ''Authorization''
     = Some ''Bearer service-key''"
proof -
  have s1: "server (demo_world [upload_503])
     [upload_req (demo_world [upload_503]) ''service-key'' [0x68, 0x69]]
     = Inr (resp 503 ''Service Unavailable'' None)"
    by (simp add: demo_answers upload_503_def)
  have st: "status_code (resp 503 ''Service Unavailable'' None) \<notin> {200, 201}"
    by (simp add: resp_def)
  have m: "upload_request ''service-key'' demo_path [0x68, 0x69]
     \<in> set (requests_of (fst (script (demo_world [upload_503]))))"
    by (simp add: script_main [OF demo_credentials] main_def
          upload_refused [OF demo_file s1 st] demo_requests)
  note T = anon_key_never_used [of "''anon-A''" "''anon-B''" "demo_world [upload_503]"]
  have e: "script (demo_world [upload_503]
             \<lparr>environ := (environ (demo_world [upload_503]))(ANON_KEY_NAME \<mapsto> ''anon-A'')\<rparr>) =
   script (demo_world [upload_503]
             \<lparr>environ := (environ (demo_world [upload_503]))(ANON_KEY_NAME \<mapsto> ''anon-B'')\<rparr>)"
    using T [THEN conjunct1] by simp
  have h: "map_of (headers (upload_request ''service-key'' demo_path [0x68, 0x69])) ''Authorization''
     = Some ''Bearer service-key''"
    using T [THEN conjunct2, rule_format, OF m] by (auto simp: demo_getenv)
  show ?thesis using e h m by simp
qed

end
